theory Spec2Isabelle
  imports Main "HOL-Library.Char_ord" "HOL-Library.List_Lexorder" "HOL-Library.AList"
begin

section \<open>Exceptions\<close>

text \<open>
  The C++ exceptions the lexer and the evaluator raise. All of them derive from
  \<^verbatim>\<open>std::exception\<close>; \<open>what\<close> is the message a handler reads.
\<close>

datatype exn =
    runtime_error string
  | out_of_range string
  | invalid_argument string

fun what :: "exn \<Rightarrow> string" where
  "what (runtime_error m) = m"
| "what (out_of_range m) = m"
| "what (invalid_argument m) = m"

section \<open>Lexer (lexer.h, lexer.cpp)\<close>

subsection \<open>Tokens\<close>

text \<open>
  \<^verbatim>\<open>parse::Token\<close> is a variant over the structs of namespace \<^verbatim>\<open>token_type\<close>. The
  constructors carry the suffix \<open>T\<close>, since \<open>Char\<close>, \<open>None\<close>, \<open>True\<close>, \<open>If\<close> and
  others are constants of HOL. \<open>NumberT\<close> holds a C++ \<^verbatim>\<open>int\<close>: the lexer only builds it
  from \<^verbatim>\<open>std::stoi\<close>, which refuses what does not fit.
\<close>

datatype Token =
    NumberT int | IdT string | CharT char | StringT string
  | ClassT | ReturnT | IfT | ElseT | DefT | NewlineT | PrintT | IndentT | DedentT
  | AndT | OrT | NotT | EqT | NotEqT | LessOrEqT | GreaterOrEqT
  | NoneT | TrueT | FalseT | EofT

abbreviation space :: char where "space \<equiv> CHR 0x20"
abbreviation hash :: char where "hash \<equiv> CHR 0x23"
abbreviation squote :: char where "squote \<equiv> CHR 0x27"
abbreviation dquote :: char where "dquote \<equiv> CHR 0x22"
abbreviation backslash :: char where "backslash \<equiv> CHR 0x5C"
abbreviation tab :: char where "tab \<equiv> CHR 0x09"
abbreviation newline :: char where "newline \<equiv> CHR 0x0A"

subsection \<open>The lexer's tables\<close>

definition keywords_tab :: "string \<Rightarrow> Token option" where
  "keywords_tab s =
     (if s = ''class'' then Some ClassT
      else if s = ''return'' then Some ReturnT
      else if s = ''if'' then Some IfT
      else if s = ''else'' then Some ElseT
      else if s = ''def'' then Some DefT
      else if s = ''print'' then Some PrintT
      else if s = ''or'' then Some OrT
      else if s = ''None'' then Some NoneT
      else if s = ''and'' then Some AndT
      else if s = ''not'' then Some NotT
      else if s = ''True'' then Some TrueT
      else if s = ''False'' then Some FalseT
      else None)"

definition operations_char_tab :: "char \<Rightarrow> Token option" where
  "operations_char_tab c =
     (if c = CHR ''+'' \<or> c = CHR ''-'' \<or> c = CHR ''*'' \<or> c = CHR ''/''
         \<or> c = CHR ''='' \<or> c = CHR ''>'' \<or> c = CHR ''<'' then Some (CharT c)
      else if c = CHR ''!'' then Some NoneT
      else None)"

definition operations_tab :: "string \<Rightarrow> Token option" where
  "operations_tab s =
     (if s = ''!='' then Some NotEqT
      else if s = ''=='' then Some EqT
      else if s = ''<='' then Some LessOrEqT
      else if s = ''>='' then Some GreaterOrEqT
      else None)"

definition chars_tab :: "char \<Rightarrow> Token option" where
  "chars_tab c =
     (if c = CHR ''('' \<or> c = CHR '')'' \<or> c = CHR '':'' \<or> c = CHR '','' \<or> c = CHR ''.''
      then Some (CharT c) else None)"

definition numbers_tab :: "char \<Rightarrow> bool" where
  "numbers_tab c \<longleftrightarrow> c \<in> set ''0123456789''"

subsection \<open>std::stoi on a run of decimal digits\<close>

definition digit_value :: "char \<Rightarrow> int" where
  "digit_value c = int (of_char c) - 48"

fun decimal_value :: "string \<Rightarrow> int \<Rightarrow> int" where
  "decimal_value [] acc = acc"
| "decimal_value (c # cs) acc = decimal_value cs (10 * acc + digit_value c)"

definition INT_MAX :: int where "INT_MAX = 2147483647"
definition INT_MIN :: int where "INT_MIN = - 2147483648"

text \<open>
  \<^verbatim>\<open>std::stoi(number)\<close>, for the strings \<^verbatim>\<open>ReadNumber\<close> builds (decimal digits only):
  no digit at all is \<^verbatim>\<open>std::invalid_argument\<close>, a value above \<^verbatim>\<open>INT_MAX\<close> is
  \<^verbatim>\<open>std::out_of_range\<close>.
\<close>

definition stoi :: "string \<Rightarrow> exn + int" where
  "stoi number =
     (if number = [] then Inl (invalid_argument ''stoi'')
      else if decimal_value number 0 > INT_MAX then Inl (out_of_range ''stoi'')
      else Inr (decimal_value number 0))"

subsection \<open>The readers\<close>

text \<open>
  A reader takes the unread characters of the line (the \<^verbatim>\<open>std::istringstream\<close>, in
  \<^verbatim>\<open>noskipws\<close> mode) and returns the tokens it pushes onto \<^verbatim>\<open>tokens_\<close> with the
  characters it leaves unread. A stream whose state is failed reads nothing more, which
  is the same as having no characters left.
\<close>

definition ReadNumber :: "string \<Rightarrow> exn + (Token list \<times> string)" where
  "ReadNumber input =
     (case input of
        [] \<Rightarrow> Inl (invalid_argument ''stoi'')
      | c # cs \<Rightarrow>
          (let is_minus = (c = CHR ''-'');
               rest = (if is_minus then cs else c # cs);
               number = takeWhile numbers_tab rest;
               rest' = dropWhile numbers_tab rest
           in case stoi number of
                Inl e \<Rightarrow> Inl e
              | Inr v \<Rightarrow> Inr ((if is_minus then [CharT (CHR ''-'')] else []) @ [NumberT v], rest')))"

text \<open>
  The loop of \<^verbatim>\<open>ReadString\<close>. After a backslash the next character is read without a
  check: when the line ends there, \<^verbatim>\<open>c\<close> still holds the backslash, which is pushed.
\<close>

fun ReadString_loop :: "char \<Rightarrow> string \<Rightarrow> string \<Rightarrow> string \<times> string" where
  "ReadString_loop quote [] result = (result, [])"
| "ReadString_loop quote [c] result =
     (if c = backslash then (result @ [backslash], [])
      else if c = quote then (result, [])
      else (result @ [c], []))"
| "ReadString_loop quote (c # d # ds) result =
     (if c = backslash then
        ReadString_loop quote ds
          (result @ [if d = CHR ''t'' then tab else if d = CHR ''n'' then newline else d])
      else if c = quote then (result, d # ds)
      else ReadString_loop quote (d # ds) (result @ [c]))"

definition ReadString :: "string \<Rightarrow> Token list \<times> string" where
  "ReadString input =
     (case input of
        [] \<Rightarrow> ([StringT []], [])
      | c # cs \<Rightarrow>
          (let quote = (if c = squote then squote else dquote);
               (result, rest) = ReadString_loop quote cs []
           in ([StringT result], rest)))"

text \<open>
  \<^verbatim>\<open>ReadId\<close>: a \<^verbatim>\<open>#\<close> puts the stream into the failed state (nothing more is read from
  the line) and returns at once, pushing the pending identifier without the keyword
  lookup.
\<close>

definition ReadId_finish :: "string \<Rightarrow> Token list" where
  "ReadId_finish ident = [case keywords_tab ident of Some t \<Rightarrow> t | None \<Rightarrow> IdT ident]"

fun ReadId_loop :: "string \<Rightarrow> string \<Rightarrow> Token list \<times> string" where
  "ReadId_loop [] ident = (ReadId_finish ident, [])"
| "ReadId_loop (c # cs) ident =
     (if c = hash then ((if ident \<noteq> [] then [IdT ident] else []), [])
      else if c = space \<or> chars_tab c \<noteq> None \<or> operations_char_tab c \<noteq> None
        then (ReadId_finish ident, c # cs)
      else ReadId_loop cs (ident @ [c]))"

definition ReadId :: "string \<Rightarrow> Token list \<times> string" where
  "ReadId input = ReadId_loop input []"

text \<open>
  \<^verbatim>\<open>ReadChar\<close> and \<^verbatim>\<open>ReadOperation\<close> look their character up with \<^verbatim>\<open>map::at\<close>, which
  throws \<^verbatim>\<open>std::out_of_range\<close> on a missing key.
\<close>

definition ReadChar :: "string \<Rightarrow> exn + (Token list \<times> string)" where
  "ReadChar input =
     (case input of
        [] \<Rightarrow> Inl (out_of_range ''map::at'')
      | c # cs \<Rightarrow>
          (case chars_tab c of
             None \<Rightarrow> Inl (out_of_range ''map::at'')
           | Some t \<Rightarrow> Inr ([t], cs)))"

definition ReadOperation :: "string \<Rightarrow> exn + (Token list \<times> string)" where
  "ReadOperation input =
     (case input of
        [] \<Rightarrow> Inl (out_of_range ''map::at'')
      | c # cs \<Rightarrow>
          (if (c = CHR ''='' \<or> c = CHR ''<'' \<or> c = CHR ''>'' \<or> c = CHR ''!'')
              \<and> cs \<noteq> [] \<and> hd cs = CHR ''=''
           then (case operations_tab [c, CHR ''=''] of
                   None \<Rightarrow> Inl (out_of_range ''map::at'')
                 | Some t \<Rightarrow> Inr ([t], tl cs))
           else (case operations_char_tab c of
                   None \<Rightarrow> Inl (out_of_range ''map::at'')
                 | Some t \<Rightarrow> Inr ([t], cs))))"

subsection \<open>ReadIndents\<close>

text \<open>
  The scanning loop of \<^verbatim>\<open>ReadIndents\<close>. \<open>c\<close> is the local variable of that name: a
  failed read leaves it as it was. The loop ends in one of two ways: by \<^verbatim>\<open>break\<close>, on a
  character that is not a space (put back), with the number of space pairs read; or by
  \<^verbatim>\<open>return\<close>, on a space that no second space follows, which leaves the function.
\<close>

datatype scan = Break nat string | Returned string

fun ReadIndents_loop :: "char \<Rightarrow> string \<Rightarrow> nat \<Rightarrow> scan" where
  "ReadIndents_loop c [] indent = (if c = space then Returned [] else Break indent [])"
| "ReadIndents_loop c [x] indent = (if x = space then Returned [] else Break indent [x])"
| "ReadIndents_loop c (x # y # ys) indent =
     (if x = space then
        (if y = space then ReadIndents_loop x ys (indent + 1) else Returned (y # ys))
      else Break indent (x # y # ys))"

text \<open>
  \<^verbatim>\<open>ReadIndents(input, old_indent)\<close>: the tokens pushed, the new value of \<^verbatim>\<open>old_indent\<close>
  and the unread characters. The indentation counters are C++ \<^verbatim>\<open>int\<close>s that only count
  pairs of spaces of one line, so they are natural numbers_tab here.
\<close>

definition ReadIndents :: "string \<Rightarrow> nat \<Rightarrow> Token list \<times> nat \<times> string" where
  "ReadIndents input old_indent =
     (case ReadIndents_loop (CHR 0xFF) input 0 of
        Returned rest \<Rightarrow> ([], old_indent, rest)
      | Break indent rest \<Rightarrow>
          (if indent > old_indent then (replicate (indent - old_indent) IndentT, indent, rest)
           else if indent < old_indent then (replicate (old_indent - indent) DedentT, indent, rest)
           else ([], old_indent, rest)))"

subsection \<open>The constructor Lexer::Lexer\<close>

text \<open>
  The loop \<^verbatim>\<open>while (line >> c)\<close> over one line, after \<^verbatim>\<open>ReadIndents\<close>: \<open>tokens\<close> is the
  vector \<^verbatim>\<open>tokens_\<close>. Each branch puts the character back and calls a reader.
\<close>

lemma ReadString_loop_length:
  "length (snd (ReadString_loop q s r)) \<le> length s"
  by (induction q s r rule: ReadString_loop.induct) (auto simp: le_Suc_eq)

lemma ReadString_length:
  "ReadString (c # cs) = (ts, rest) \<Longrightarrow> length rest \<le> length cs"
  using ReadString_loop_length [of "if c = squote then squote else dquote" cs "[]"]
  by (auto simp: ReadString_def Let_def split: prod.splits)

lemma ReadOperation_length:
  "ReadOperation (c # cs) = Inr (ts, rest) \<Longrightarrow> length rest \<le> length cs"
  by (cases cs) (auto simp: ReadOperation_def split: if_splits option.splits)

lemma ReadChar_length:
  "ReadChar (c # cs) = Inr (ts, rest) \<Longrightarrow> length rest \<le> length cs"
  by (auto simp: ReadChar_def split: option.splits)

lemma ReadNumber_length:
  "numbers_tab c \<Longrightarrow> ReadNumber (c # cs) = Inr (ts, rest) \<Longrightarrow> length rest \<le> length cs"
  using length_dropWhile_le [of numbers_tab cs]
  by (auto simp: ReadNumber_def Let_def numbers_tab_def split: sum.splits if_splits)

lemma ReadId_loop_length:
  "length (snd (ReadId_loop s i)) \<le> length s"
  by (induction s i rule: ReadId_loop.induct) (auto simp: le_Suc_eq)

lemma ReadId_length:
  "c \<noteq> space \<Longrightarrow> chars_tab c = None \<Longrightarrow> operations_char_tab c = None \<Longrightarrow>
   ReadId (c # cs) = (ts, rest) \<Longrightarrow> length rest \<le> length cs"
  using ReadId_loop_length [of cs "[c]"]
  by (auto simp: ReadId_def split: if_splits)

function tokenise :: "string \<Rightarrow> Token list \<Rightarrow> exn + Token list" where
  "tokenise [] tokens = Inr tokens"
| "tokenise (c # cs) tokens =
     (if c = space then tokenise cs tokens
      else if c = squote \<or> c = dquote then
        (case ReadString (c # cs) of (ts, rest) \<Rightarrow> tokenise rest (tokens @ ts))
      else if operations_char_tab c \<noteq> None then
        (case ReadOperation (c # cs) of
           Inl e \<Rightarrow> Inl e
         | Inr (ts, rest) \<Rightarrow> tokenise rest (tokens @ ts))
      else if chars_tab c \<noteq> None then
        (case ReadChar (c # cs) of
           Inl e \<Rightarrow> Inl e
         | Inr (ts, rest) \<Rightarrow> tokenise rest (tokens @ ts))
      else if numbers_tab c then
        (case ReadNumber (c # cs) of
           Inl e \<Rightarrow> Inl e
         | Inr (ts, rest) \<Rightarrow> tokenise rest (tokens @ ts))
      else
        (case ReadId (c # cs) of (ts, rest) \<Rightarrow> tokenise rest (tokens @ ts)))"
  by pat_completeness auto
termination
proof (relation "measure (\<lambda>(s, ts). length s)")
qed (auto simp: le_imp_less_Suc
          dest: ReadString_length ReadOperation_length ReadChar_length ReadNumber_length
                ReadId_length ReadString_length [OF sym] ReadOperation_length [OF sym]
                ReadChar_length [OF sym] ReadNumber_length [OF _ sym]
                ReadId_length [OF _ _ _ sym])

text \<open>
  One pass of the loop \<^verbatim>\<open>while (!input.eof())\<close>: \<open>line\<close> is what \<^verbatim>\<open>std::getline\<close> read.
  The state is the pair of \<^verbatim>\<open>tokens_\<close> and \<^verbatim>\<open>indent_count\<close>.
\<close>

definition Lexer_line :: "string \<Rightarrow> Token list \<times> nat \<Rightarrow> exn + (Token list \<times> nat)" where
  "Lexer_line line s =
     (case s of (tokens, indent_count) \<Rightarrow>
        if line = [] \<or> hd line = hash then Inr (tokens, indent_count)
        else
          (case ReadIndents line indent_count of (ts, indent_count', rest) \<Rightarrow>
             (case tokenise rest (tokens @ ts) of
                Inl e \<Rightarrow> Inl e
              | Inr tokens' \<Rightarrow>
                  Inr (if tokens' \<noteq> [] then tokens' @ [NewlineT] else tokens', indent_count'))))"

text \<open>
  The lines \<^verbatim>\<open>std::getline\<close> delivers until \<^verbatim>\<open>input.eof()\<close>: the input split at every
  newline character. After a final newline one more, empty, line is read.
\<close>

fun getlines :: "string \<Rightarrow> string \<Rightarrow> string list" where
  "getlines [] temp_string = [temp_string]"
| "getlines (c # cs) temp_string =
     (if c = newline then temp_string # getlines cs [] else getlines cs (temp_string @ [c]))"

fun Lexer_lines :: "string list \<Rightarrow> Token list \<times> nat \<Rightarrow> exn + (Token list \<times> nat)" where
  "Lexer_lines [] s = Inr s"
| "Lexer_lines (l # ls) s =
     (case Lexer_line l s of Inl e \<Rightarrow> Inl e | Inr s' \<Rightarrow> Lexer_lines ls s')"

text \<open>The constructor: the value of \<^verbatim>\<open>tokens_\<close> when it returns, or the exception it throws.\<close>

definition Lexer :: "string \<Rightarrow> exn + Token list" where
  "Lexer input =
     (case Lexer_lines (getlines input []) ([], 0) of
        Inl e \<Rightarrow> Inl e
      | Inr (tokens, indent_count) \<Rightarrow> Inr (tokens @ replicate indent_count DedentT @ [EofT]))"

section \<open>Runtime objects (runtime.cpp)\<close>

text \<open>
  Modelled from the spec: runtime.h, which declares \<^verbatim>\<open>ObjectHolder\<close>, \<^verbatim>\<open>Object\<close>, the values
  \<^verbatim>\<open>Number\<close>, \<^verbatim>\<open>String\<close> and \<^verbatim>\<open>Bool\<close>, \<^verbatim>\<open>Method\<close>, \<^verbatim>\<open>Class\<close>, \<^verbatim>\<open>ClassInstance\<close>, \<^verbatim>\<open>Closure\<close>
  and \<^verbatim>\<open>Context\<close>, is not among the sources. The types of this section follow the data model
  of the spec and the use runtime.cpp and statement.cpp make of them: an \<^verbatim>\<open>ObjectHolder\<close> is a
  shared handle that may be empty, a \<^verbatim>\<open>Closure\<close> maps names to holders, a \<^verbatim>\<open>Method\<close> has a
  name, formal parameters and a body, and \<^verbatim>\<open>TryAs<T>\<close> gives a null pointer unless the object
  is a \<^verbatim>\<open>T\<close>.

  Objects live in a heap, a list indexed by address; an \<^verbatim>\<open>ObjectHolder\<close> is the address its
  pointer holds, or \<open>None\<close> for the empty holder. \<^verbatim>\<open>ObjectHolder::Share\<close> returns the address
  of the object it is given and \<^verbatim>\<open>ObjectHolder::Own\<close> allocates. Objects are never freed here:
  the lifetime of what a non-owning holder points to is outside this model. The one place
  where a function drops a holder that may own its object and goes on with the bare
  pointer, \<^verbatim>\<open>Stringify::Execute\<close>, is modelled there.

  The statements of the syntax tree come first, since a method holds its body. A node that
  embeds an object (the \<^verbatim>\<open>value_\<close> of a \<^verbatim>\<open>ValueStatement\<close>, the \<^verbatim>\<open>instance\<close> of a
  \<^verbatim>\<open>NewInstance\<close>) holds the address of that object. \<open>FieldAssignment\<close> holds the
  \<^verbatim>\<open>var_names_\<close> of its \<^verbatim>\<open>VariableValue\<close>, and \<open>Print\<close> its \<^verbatim>\<open>args_\<close> and \<^verbatim>\<open>name_\<close>. A
  \<^verbatim>\<open>Comparison\<close> holds one of the six comparators of runtime.cpp.
\<close>

type_synonym addr = nat

type_synonym ObjectHolder = "addr option"

type_synonym Closure = "(string \<times> ObjectHolder) list"

datatype Comparator =
  EqualCmp | LessCmp | NotEqualCmp | GreaterCmp | LessOrEqualCmp | GreaterOrEqualCmp

datatype Statement =
    ValueStatement addr
  | VariableValue "string list"
  | Assignment string Statement
  | FieldAssignment "string list" string Statement
  | NoneStatement
  | Print "Statement list" string
  | MethodCall Statement string "Statement list"
  | NewInstance addr "Statement list"
  | Stringify Statement
  | Add Statement Statement
  | Sub Statement Statement
  | Mult Statement Statement
  | Div Statement Statement
  | Or Statement Statement
  | And Statement Statement
  | NotStatement Statement
  | Compound "Statement list"
  | MethodBody Statement
  | Return Statement
  | ClassDefinition ObjectHolder
  | IfElse Statement Statement "Statement option"
  | Comparison Comparator Statement Statement

record Method =
  name :: string
  formal_params :: "string list"
  body :: Statement

text \<open>
  A class is immutable and only read through \<^verbatim>\<open>GetName\<close> and \<^verbatim>\<open>GetMethod\<close>, so the parent
  pointer and the class reference of an instance are the class itself. \<open>methods\<close> is the
  list the constructor inserts into \<^verbatim>\<open>methods_\<close>: \<^verbatim>\<open>insert\<close> keeps the first method of a name.
\<close>

datatype Class = Class (GetName: string) (methods: "Method list") (parent: "Class option")

datatype Object =
    Number int
  | String string
  | Bool bool
  | ClassObject Class
  | ClassInstance Class Closure

text \<open>
  A \<^verbatim>\<open>Closure&\<close> is either a closure of its own (the program's, or the one a call builds) or
  the \<^verbatim>\<open>fields_\<close> of the instance at an address.
\<close>

datatype cref = Local nat | Fields addr

text \<open>
  The state: the heap, the closures that are not fields, and what was written to
  \<^verbatim>\<open>context.GetOutputStream()\<close>. With them comes one fact about the compiled program that
  the source does not fix, \<open>right_first\<close>: whether \<^verbatim>\<open>Comparison::Execute\<close>, which executes its
  two operands as the arguments of one call, executes the right one first. C++ leaves that
  order to the compiler (g++ executes the right operand first). No function changes it.
\<close>

record State =
  heap :: "Object list"
  locals :: "Closure list"
  out_stream :: string
  right_first :: bool

text \<open>
  The outcome of a call: a value, a C++ exception (with the state at the throw), undefined
  behaviour (a null pointer dereferenced, a signed overflow), no fuel left, or
  \<open>Undetermined\<close>: an outcome this model does not determine, because it depends on whether a
  holder that has been destroyed was the last owner of its object (the object is freed
  then, and its use is undefined behaviour).
\<close>

datatype 'a result = Ok 'a State | Throw exn State | Undefined | Undetermined | OutOfFuel

definition bind :: "'a result \<Rightarrow> ('a \<Rightarrow> State \<Rightarrow> 'b result) \<Rightarrow> 'b result" where
  "bind r f =
     (case r of
        Ok v st \<Rightarrow> f v st
      | Throw e st \<Rightarrow> Throw e st
      | Undefined \<Rightarrow> Undefined
      | Undetermined \<Rightarrow> Undetermined
      | OutOfFuel \<Rightarrow> OutOfFuel)"

type_synonym executor = "Statement \<Rightarrow> cref \<Rightarrow> State \<Rightarrow> ObjectHolder result"

type_synonym printer = "addr \<Rightarrow> State \<Rightarrow> string result"

subsection \<open>Holders, closures and the output stream\<close>

definition deref :: "State \<Rightarrow> addr \<Rightarrow> Object option" where
  "deref st a = (if a < length (heap st) then Some (heap st ! a) else None)"

definition Own :: "Object \<Rightarrow> State \<Rightarrow> ObjectHolder result" where
  "Own obj st = Ok (Some (length (heap st))) (st\<lparr>heap := heap st @ [obj]\<rparr>)"

definition TryAs_Number :: "State \<Rightarrow> ObjectHolder \<Rightarrow> int option" where
  "TryAs_Number st h =
     (case h of None \<Rightarrow> None
      | Some a \<Rightarrow> (case deref st a of Some (Number v) \<Rightarrow> Some v | _ \<Rightarrow> None))"

definition TryAs_String :: "State \<Rightarrow> ObjectHolder \<Rightarrow> string option" where
  "TryAs_String st h =
     (case h of None \<Rightarrow> None
      | Some a \<Rightarrow> (case deref st a of Some (String v) \<Rightarrow> Some v | _ \<Rightarrow> None))"

definition TryAs_Bool :: "State \<Rightarrow> ObjectHolder \<Rightarrow> bool option" where
  "TryAs_Bool st h =
     (case h of None \<Rightarrow> None
      | Some a \<Rightarrow> (case deref st a of Some (Bool v) \<Rightarrow> Some v | _ \<Rightarrow> None))"

definition TryAs_Class :: "State \<Rightarrow> ObjectHolder \<Rightarrow> Class option" where
  "TryAs_Class st h =
     (case h of None \<Rightarrow> None
      | Some a \<Rightarrow> (case deref st a of Some (ClassObject cls) \<Rightarrow> Some cls | _ \<Rightarrow> None))"

text \<open>Both of two casts succeed: \<^verbatim>\<open>lhs.TryAs<T>() && rhs.TryAs<T>()\<close>.\<close>

definition both :: "'a option \<Rightarrow> 'a option \<Rightarrow> ('a \<times> 'a) option" where
  "both p q =
     (case p of None \<Rightarrow> None
      | Some x \<Rightarrow> (case q of None \<Rightarrow> None | Some y \<Rightarrow> Some (x, y)))"

text \<open>\<^verbatim>\<open>TryAs<ClassInstance>()\<close>: the address of the instance, its class and its fields.\<close>

definition TryAs_ClassInstance :: "State \<Rightarrow> ObjectHolder \<Rightarrow> (addr \<times> Class \<times> Closure) option" where
  "TryAs_ClassInstance st h =
     (case h of None \<Rightarrow> None
      | Some a \<Rightarrow>
          (case deref st a of Some (ClassInstance cls flds) \<Rightarrow> Some (a, cls, flds) | _ \<Rightarrow> None))"

fun get_closure :: "State \<Rightarrow> cref \<Rightarrow> Closure option" where
  "get_closure st (Local k) = (if k < length (locals st) then Some (locals st ! k) else None)"
| "get_closure st (Fields a) =
     (case deref st a of Some (ClassInstance cls flds) \<Rightarrow> Some flds | _ \<Rightarrow> None)"

fun set_closure :: "cref \<Rightarrow> Closure \<Rightarrow> State \<Rightarrow> State" where
  "set_closure (Local k) cl st = st\<lparr>locals := (locals st)[k := cl]\<rparr>"
| "set_closure (Fields a) cl st =
     (case deref st a of
        Some (ClassInstance cls flds) \<Rightarrow> st\<lparr>heap := (heap st)[a := ClassInstance cls cl]\<rparr>
      | _ \<Rightarrow> st)"

text \<open>\<^verbatim>\<open>closure[key] = value\<close>; \<open>None\<close> when \<open>c\<close> refers to no closure.\<close>

definition closure_store :: "cref \<Rightarrow> string \<Rightarrow> ObjectHolder \<Rightarrow> State \<Rightarrow> State option" where
  "closure_store c key v st =
     (case get_closure st c of
        None \<Rightarrow> None
      | Some cl \<Rightarrow> Some (set_closure c (AList.update key v cl) st))"

definition write_text :: "string \<Rightarrow> State \<Rightarrow> State" where
  "write_text txt st = st\<lparr>out_stream := out_stream st @ txt\<rparr>"

text \<open>
  The message of the \<^verbatim>\<open>std::out_of_range\<close> that \<^verbatim>\<open>at\<close> throws on a missing key of a
  closure; the C++ library chooses it.
\<close>

definition at_message :: string where
  "at_message = ''unordered_map::at''"

subsection \<open>Printing values\<close>

text \<open>
  Modelled from the spec: runtime.h, which declares \<^verbatim>\<open>ValueObject<T>::Print\<close>, is not among
  the sources; the spec says that \<^verbatim>\<open>Number\<close> and \<^verbatim>\<open>String\<close> print their raw value. A number
  prints in decimal.
\<close>

fun show_nat :: "nat \<Rightarrow> string" where
  "show_nat n =
     (if n < 10 then [char_of (48 + n)] else show_nat (n div 10) @ [char_of (48 + n mod 10)])"

declare show_nat.simps [simp del]

definition show_int :: "int \<Rightarrow> string" where
  "show_int i = (if i < 0 then CHR ''-'' # show_nat (nat (- i)) else show_nat (nat i))"

text \<open>
  \<^verbatim>\<open>os << ptr\<close> for a pointer writes the address in a format the C++ library chooses. Here
  it is \<^verbatim>\<open>0x\<close> and the address of the model, and \<^verbatim>\<open>0\<close> for the null pointer; what matters is
  that it is not empty.
\<close>

definition show_pointer :: "ObjectHolder \<Rightarrow> string" where
  "show_pointer ptr = (case ptr of None \<Rightarrow> ''0'' | Some a \<Rightarrow> ''0x'' @ show_nat a)"

subsection \<open>Classes and instances\<close>

abbreviation STR_METHOD :: string where "STR_METHOD \<equiv> ''__str__''"
abbreviation EQ_METHOD :: string where "EQ_METHOD \<equiv> ''__eq__''"
abbreviation LESS_METHOD :: string where "LESS_METHOD \<equiv> ''__lt__''"
abbreviation ADD_METHOD :: string where "ADD_METHOD \<equiv> ''__add__''"
abbreviation INIT_METHOD :: string where "INIT_METHOD \<equiv> ''__init__''"

fun GetMethod :: "Class \<Rightarrow> string \<Rightarrow> Method option" where
  "GetMethod (Class nm ms p) m =
     (case find (\<lambda>x. name x = m) ms of
        Some x \<Rightarrow> Some x
      | None \<Rightarrow> (case p of None \<Rightarrow> None | Some pc \<Rightarrow> GetMethod pc m))"

definition HasMethod :: "Class \<Rightarrow> string \<Rightarrow> nat \<Rightarrow> bool" where
  "HasMethod cls m argument_count =
     (case GetMethod cls m of
        None \<Rightarrow> False
      | Some x \<Rightarrow> length (formal_params x) = argument_count)"

text \<open>
  The constructor \<^verbatim>\<open>ClassInstance(cls)\<close>, for an instance placed at the next free address:
  its fields hold \<^verbatim>\<open>self\<close>, bound to the instance.
\<close>

definition new_ClassInstance :: "Class \<Rightarrow> State \<Rightarrow> addr \<times> State" where
  "new_ClassInstance cls st =
     (length (heap st),
      st\<lparr>heap := heap st @ [ClassInstance cls [(''self'', Some (length (heap st)))]]\<rparr>)"

definition IsTrue :: "State \<Rightarrow> ObjectHolder \<Rightarrow> bool" where
  "IsTrue st object =
     (case TryAs_Bool st object of
        Some b \<Rightarrow> b
      | None \<Rightarrow>
          (case TryAs_String st object of
             Some s \<Rightarrow> length s \<noteq> 0
           | None \<Rightarrow>
               (case TryAs_Number st object of
                  Some v \<Rightarrow> v \<noteq> 0
                | None \<Rightarrow> False)))"

text \<open>
  \<^verbatim>\<open>ClassInstance::Call\<close> on the instance at \<open>a\<close>. The fresh closure becomes a new local
  closure; \<open>ex\<close> executes the body.
\<close>

definition ClassInstance_Call ::
  "executor \<Rightarrow> addr \<Rightarrow> string \<Rightarrow> ObjectHolder list \<Rightarrow> State \<Rightarrow> ObjectHolder result" where
  "ClassInstance_Call ex a m actual_args st =
     (case deref st a of
        Some (ClassInstance cls flds) \<Rightarrow>
          (case GetMethod cls m of
             None \<Rightarrow> Throw (runtime_error ''Not implemented'') st
           | Some method_ptr \<Rightarrow>
               if length actual_args \<noteq> length (formal_params method_ptr)
               then Throw (runtime_error ''Not implemented'') st
               else
                 (let closure =
                        fold (\<lambda>(p, v) cl. AList.update p v cl)
                          (zip (formal_params method_ptr) actual_args) [(''self'', Some a)]
                  in ex (body method_ptr) (Local (length (locals st)))
                       (st\<lparr>locals := locals st @ [closure]\<rparr>)))
      | _ \<Rightarrow> Undefined)"

text \<open>
  \<^verbatim>\<open>Object::Print(os, context)\<close> for the object at \<open>a\<close>: the text written to \<open>os\<close>. For an
  instance, \<open>ex\<close> executes the body of \<^verbatim>\<open>__str__\<close> and \<open>pr\<close> prints its result; all that the
  body writes to the output stream of the context is written before the text returned.
\<close>

definition Print_object :: "executor \<Rightarrow> printer \<Rightarrow> printer" where
  "Print_object ex pr a st =
     (case deref st a of
        None \<Rightarrow> Undefined
      | Some (Number v) \<Rightarrow> Ok (show_int v) st
      | Some (String s) \<Rightarrow> Ok s st
      | Some (Bool b) \<Rightarrow> Ok (if b then ''True'' else ''False'') st
      | Some (ClassObject cls) \<Rightarrow> Ok (''Class '' @ GetName cls) st
      | Some (ClassInstance cls flds) \<Rightarrow>
          (case GetMethod cls STR_METHOD of
             None \<Rightarrow> Ok [] st
           | Some ptr \<Rightarrow>
               bind (ex (body ptr) (Fields a) st)
                 (\<lambda>r st'. case r of None \<Rightarrow> Undefined | Some b \<Rightarrow> pr b st')))"

subsection \<open>Comparisons\<close>

definition Equal :: "executor \<Rightarrow> ObjectHolder \<Rightarrow> ObjectHolder \<Rightarrow> State \<Rightarrow> bool result" where
  "Equal ex lhs rhs st =
     (case both (TryAs_Number st lhs) (TryAs_Number st rhs) of
        Some (x, y) \<Rightarrow> Ok (x = y) st
      | None \<Rightarrow>
     (case both (TryAs_String st lhs) (TryAs_String st rhs) of
        Some (x, y) \<Rightarrow> Ok (x = y) st
      | None \<Rightarrow>
     (case both (TryAs_Bool st lhs) (TryAs_Bool st rhs) of
        Some (x, y) \<Rightarrow> Ok (x = y) st
      | None \<Rightarrow>
     if lhs = None \<and> rhs = None then Ok True st
     else
     (case TryAs_ClassInstance st lhs of
        Some (a, cls, flds) \<Rightarrow>
          bind (ClassInstance_Call ex a EQ_METHOD [rhs] st) (\<lambda>r st'. Ok (IsTrue st' r) st')
      | None \<Rightarrow>
     if lhs = rhs then Ok True st
     else Throw (runtime_error ''Cannot compare objects for equality'') st))))"

definition Less :: "executor \<Rightarrow> ObjectHolder \<Rightarrow> ObjectHolder \<Rightarrow> State \<Rightarrow> bool result" where
  "Less ex lhs rhs st =
     (case both (TryAs_Number st lhs) (TryAs_Number st rhs) of
        Some (x, y) \<Rightarrow> Ok (x < y) st
      | None \<Rightarrow>
     (case both (TryAs_String st lhs) (TryAs_String st rhs) of
        Some (x, y) \<Rightarrow> Ok (x < y) st
      | None \<Rightarrow>
     (case both (TryAs_Bool st lhs) (TryAs_Bool st rhs) of
        Some (x, y) \<Rightarrow> Ok (x < y) st
      | None \<Rightarrow>
     (case TryAs_ClassInstance st lhs of
        Some (a, cls, flds) \<Rightarrow>
          bind (ClassInstance_Call ex a LESS_METHOD [rhs] st) (\<lambda>r st'. Ok (IsTrue st' r) st')
      | None \<Rightarrow> Throw (runtime_error ''Cannot compare objects for less'') st))))"

definition NotEqual :: "executor \<Rightarrow> ObjectHolder \<Rightarrow> ObjectHolder \<Rightarrow> State \<Rightarrow> bool result" where
  "NotEqual ex lhs rhs st = bind (Equal ex lhs rhs st) (\<lambda>e st'. Ok (\<not> e) st')"

text \<open>
  \<^verbatim>\<open>!Less(lhs, rhs, context) && !Equal(lhs, rhs, context)\<close> inside a \<^verbatim>\<open>try\<close> whose handler
  throws a \<^verbatim>\<open>runtime_error\<close> of its own: \<^verbatim>\<open>Equal\<close> is called only when \<^verbatim>\<open>Less\<close> returned false.
\<close>

definition Greater :: "executor \<Rightarrow> ObjectHolder \<Rightarrow> ObjectHolder \<Rightarrow> State \<Rightarrow> bool result" where
  "Greater ex lhs rhs st =
     (case bind (Less ex lhs rhs st)
             (\<lambda>l st1. if l then Ok False st1
                       else bind (Equal ex lhs rhs st1) (\<lambda>e st2. Ok (\<not> e) st2)) of
        Throw e st' \<Rightarrow> Throw (runtime_error ''Cannot compare objects for greater'') st'
      | r \<Rightarrow> r)"

definition LessOrEqual :: "executor \<Rightarrow> ObjectHolder \<Rightarrow> ObjectHolder \<Rightarrow> State \<Rightarrow> bool result" where
  "LessOrEqual ex lhs rhs st =
     bind (Less ex lhs rhs st)
       (\<lambda>l st1. if l then Ok True st1 else Equal ex lhs rhs st1)"

definition GreaterOrEqual :: "executor \<Rightarrow> ObjectHolder \<Rightarrow> ObjectHolder \<Rightarrow> State \<Rightarrow> bool result" where
  "GreaterOrEqual ex lhs rhs st =
     bind (Less ex lhs rhs st) (\<lambda>l st1. if \<not> l then Ok True st1 else Ok False st1)"

fun Comparator_call ::
  "Comparator \<Rightarrow> executor \<Rightarrow> ObjectHolder \<Rightarrow> ObjectHolder \<Rightarrow> State \<Rightarrow> bool result" where
  "Comparator_call EqualCmp = Equal"
| "Comparator_call LessCmp = Less"
| "Comparator_call NotEqualCmp = NotEqual"
| "Comparator_call GreaterCmp = Greater"
| "Comparator_call LessOrEqualCmp = LessOrEqual"
| "Comparator_call GreaterOrEqualCmp = GreaterOrEqual"

section \<open>Statements (statement.h, statement.cpp)\<close>

text \<open>
  One definition for the \<^verbatim>\<open>Execute\<close> of each node class. \<open>ex\<close> executes a child statement
  and \<open>pr\<close> prints an object; \<open>c\<close> is the \<^verbatim>\<open>closure\<close> argument.
\<close>

text \<open>\<^verbatim>\<open>ValueStatement<T>::Execute\<close> shares the embedded value.\<close>

definition ValueStatement_Execute :: "addr \<Rightarrow> State \<Rightarrow> ObjectHolder result" where
  "ValueStatement_Execute a st = (if a < length (heap st) then Ok (Some a) st else Undefined)"

text \<open>
  The loop of \<^verbatim>\<open>VariableValue::Execute\<close> over \<^verbatim>\<open>var_names_[1..]\<close>: a holder that is no
  instance gives a null pointer to dereference, a missing field an \<^verbatim>\<open>out_of_range\<close>.
\<close>

fun VariableValue_loop :: "State \<Rightarrow> ObjectHolder \<Rightarrow> string list \<Rightarrow> ObjectHolder result" where
  "VariableValue_loop st obj [] = Ok obj st"
| "VariableValue_loop st obj (n # ns) =
     (case TryAs_ClassInstance st obj of
        None \<Rightarrow> Undefined
      | Some (a, cls, flds) \<Rightarrow>
          (case map_of flds n of
             None \<Rightarrow> Throw (out_of_range at_message) st
           | Some obj' \<Rightarrow> VariableValue_loop st obj' ns))"

text \<open>
  The first name is looked up in the closure, inside the \<^verbatim>\<open>try\<close> that turns a missing name
  into the \<^verbatim>\<open>runtime_error\<close> \<^verbatim>\<open>execute error\<close>. The result is \<^verbatim>\<open>Share(*obj.Get())\<close>, which
  dereferences the pointer: an empty holder is undefined behaviour.
\<close>

definition VariableValue_Execute :: "string list \<Rightarrow> cref \<Rightarrow> State \<Rightarrow> ObjectHolder result" where
  "VariableValue_Execute var_names c st =
     (case var_names of
        [] \<Rightarrow> Undefined
      | n # ns \<Rightarrow>
          (case get_closure st c of
             None \<Rightarrow> Undefined
           | Some closure \<Rightarrow>
               (case map_of closure n of
                  None \<Rightarrow> Throw (runtime_error ''execute error'') st
                | Some obj \<Rightarrow>
                    bind (VariableValue_loop st obj ns)
                      (\<lambda>obj' st'. case obj' of None \<Rightarrow> Undefined | Some a \<Rightarrow> Ok (Some a) st'))))"

definition Assignment_Execute ::
  "executor \<Rightarrow> string \<Rightarrow> Statement \<Rightarrow> cref \<Rightarrow> State \<Rightarrow> ObjectHolder result" where
  "Assignment_Execute ex var_name var_value c st =
     bind (ex var_value c st)
       (\<lambda>v st1. case closure_store c var_name v st1 of
                   None \<Rightarrow> Undefined
                 | Some st2 \<Rightarrow> Ok v st2)"

text \<open>
  \<^verbatim>\<open>FieldAssignment::Execute\<close> is one assignment expression: its right operand, the value,
  is evaluated before its left operand, the field of the object (C++17).
\<close>

definition FieldAssignment_Execute ::
  "executor \<Rightarrow> string list \<Rightarrow> string \<Rightarrow> Statement \<Rightarrow> cref \<Rightarrow> State \<Rightarrow> ObjectHolder result" where
  "FieldAssignment_Execute ex object field_name field_value c st =
     bind (ex field_value c st)
       (\<lambda>v st1.
          bind (VariableValue_Execute object c st1)
            (\<lambda>obj st2.
               case TryAs_ClassInstance st2 obj of
                 None \<Rightarrow> Undefined
               | Some (a, cls, flds) \<Rightarrow>
                   Ok v (set_closure (Fields a) (AList.update field_name v flds) st2)))"

text \<open>The loop of \<^verbatim>\<open>Print::Execute\<close> over \<^verbatim>\<open>args_\<close>.\<close>

fun Print_loop :: "executor \<Rightarrow> printer \<Rightarrow> Statement list \<Rightarrow> cref \<Rightarrow> State \<Rightarrow> unit result" where
  "Print_loop ex pr [] c st = Ok () st"
| "Print_loop ex pr (arg # args) c st =
     bind (ex arg c st)
       (\<lambda>ptr st1.
          bind (case ptr of Some a \<Rightarrow> pr a st1 | None \<Rightarrow> Ok ''None'' st1)
            (\<lambda>txt st2.
               Print_loop ex pr args c
                 (write_text (txt @ [if args \<noteq> [] then space else newline]) st2)))"

definition Print_Execute ::
  "executor \<Rightarrow> printer \<Rightarrow> Statement list \<Rightarrow> string \<Rightarrow> cref \<Rightarrow> State \<Rightarrow> ObjectHolder result" where
  "Print_Execute ex pr args nm c st =
     (if nm \<noteq> [] then
        (case get_closure st c of
           None \<Rightarrow> Undefined
         | Some closure \<Rightarrow>
             (case map_of closure nm of
                None \<Rightarrow> Throw (out_of_range at_message) st
              | Some None \<Rightarrow> Undefined
              | Some (Some a) \<Rightarrow>
                  bind (pr a st) (\<lambda>txt st1. Ok None (write_text (txt @ [newline]) st1))))
      else if args \<noteq> [] then
        bind (Print_loop ex pr args c st) (\<lambda>u st1. Ok None st1)
      else Ok None (write_text [newline] st))"

text \<open>The loops that evaluate the arguments of \<^verbatim>\<open>MethodCall\<close> and \<^verbatim>\<open>NewInstance\<close>.\<close>

fun Execute_args :: "executor \<Rightarrow> Statement list \<Rightarrow> cref \<Rightarrow> State \<Rightarrow> ObjectHolder list result" where
  "Execute_args ex [] c st = Ok [] st"
| "Execute_args ex (arg # args) c st =
     bind (ex arg c st)
       (\<lambda>v st1. bind (Execute_args ex args c st1) (\<lambda>vs st2. Ok (v # vs) st2))"

text \<open>\<^verbatim>\<open>MethodCall::Execute\<close> evaluates the arguments, then the object.\<close>

definition MethodCall_Execute ::
  "executor \<Rightarrow> Statement \<Rightarrow> string \<Rightarrow> Statement list \<Rightarrow> cref \<Rightarrow> State \<Rightarrow> ObjectHolder result" where
  "MethodCall_Execute ex object m args c st =
     bind (Execute_args ex args c st)
       (\<lambda>vs st1.
          bind (ex object c st1)
            (\<lambda>obj st2.
               case TryAs_ClassInstance st2 obj of
                 None \<Rightarrow> Undefined
               | Some (a, cls, flds) \<Rightarrow> ClassInstance_Call ex a m vs st2))"

text \<open>
  \<^verbatim>\<open>Stringify::Execute\<close> keeps only the pointer, \<^verbatim>\<open>.Get()\<close>, of the holder that the argument
  returns; that holder is a temporary, destroyed before \<^verbatim>\<open>Print\<close> is called. Where it does
  not own its object, this frees nothing. A holder that owns its object comes from a call of
  \<^verbatim>\<open>ObjectHolder::Own\<close> made while the argument was executed: what was stored before is read
  through \<^verbatim>\<open>VariableValue\<close>, which returns \<^verbatim>\<open>ObjectHolder::Share\<close>, a holder that owns nothing,
  and so do a constant, a class and the instance of a \<^verbatim>\<open>NewInstance\<close>. So the temporary can
  be an owner only of an object that was allocated during the execution of the argument,
  and where it is the last one, the object is freed before it is printed:
  \<open>temporary_may_own\<close>, with \<open>st\<close> the state before the argument was executed. The outcome is
  \<open>Undetermined\<close> in that case (the sum of two numbers is freed; the value of an assignment
  is still owned by the closure).
\<close>

definition temporary_may_own :: "State \<Rightarrow> ObjectHolder \<Rightarrow> bool" where
  "temporary_may_own st ptr = (case ptr of None \<Rightarrow> False | Some a \<Rightarrow> length (heap st) \<le> a)"

text \<open>When nothing was printed, the pointer itself is written to the string stream.\<close>

definition Stringify_Execute ::
  "executor \<Rightarrow> printer \<Rightarrow> Statement \<Rightarrow> cref \<Rightarrow> State \<Rightarrow> ObjectHolder result" where
  "Stringify_Execute ex pr argument c st =
     bind (ex argument c st)
       (\<lambda>ptr st1.
          if temporary_may_own st ptr then Undetermined
          else
            bind (case ptr of Some a \<Rightarrow> pr a st1 | None \<Rightarrow> Ok ''None'' st1)
              (\<lambda>str st2.
                 if str \<noteq> [] then Own (String str) st2
                 else Own (String (str @ show_pointer ptr)) st2))"

text \<open>Arithmetic on C++ \<^verbatim>\<open>int\<close>: a result out of range is a signed overflow.\<close>

definition Own_Number :: "int \<Rightarrow> State \<Rightarrow> ObjectHolder result" where
  "Own_Number v st = (if INT_MIN \<le> v \<and> v \<le> INT_MAX then Own (Number v) st else Undefined)"

text \<open>C++ integer division truncates towards zero.\<close>

definition int_div :: "int \<Rightarrow> int \<Rightarrow> int" where
  "int_div x y = sgn x * sgn y * (\<bar>x\<bar> div \<bar>y\<bar>)"

definition Add_Execute ::
  "executor \<Rightarrow> Statement \<Rightarrow> Statement \<Rightarrow> cref \<Rightarrow> State \<Rightarrow> ObjectHolder result" where
  "Add_Execute ex l r c st =
     bind (ex l c st)
       (\<lambda>lhs st1.
          bind (ex r c st1)
            (\<lambda>rhs st2.
               case both (TryAs_Number st2 lhs) (TryAs_Number st2 rhs) of
                 Some (x, y) \<Rightarrow> Own_Number (x + y) st2
               | None \<Rightarrow>
               (case both (TryAs_String st2 lhs) (TryAs_String st2 rhs) of
                  Some (x, y) \<Rightarrow> Own (String (x @ y)) st2
                | None \<Rightarrow>
               (case TryAs_ClassInstance st2 lhs of
                  Some (a, cls, flds) \<Rightarrow>
                    if HasMethod cls ADD_METHOD 1 then ClassInstance_Call ex a ADD_METHOD [rhs] st2
                    else Throw (runtime_error ''Add Error'') st2
                | None \<Rightarrow> Throw (runtime_error ''Add Error'') st2))))"

definition Sub_Execute ::
  "executor \<Rightarrow> Statement \<Rightarrow> Statement \<Rightarrow> cref \<Rightarrow> State \<Rightarrow> ObjectHolder result" where
  "Sub_Execute ex l r c st =
     bind (ex l c st)
       (\<lambda>lhs st1.
          bind (ex r c st1)
            (\<lambda>rhs st2.
               case both (TryAs_Number st2 lhs) (TryAs_Number st2 rhs) of
                 Some (x, y) \<Rightarrow> Own_Number (x - y) st2
               | None \<Rightarrow> Throw (runtime_error ''Sub Error'') st2))"

definition Mult_Execute ::
  "executor \<Rightarrow> Statement \<Rightarrow> Statement \<Rightarrow> cref \<Rightarrow> State \<Rightarrow> ObjectHolder result" where
  "Mult_Execute ex l r c st =
     bind (ex l c st)
       (\<lambda>lhs st1.
          bind (ex r c st1)
            (\<lambda>rhs st2.
               case both (TryAs_Number st2 lhs) (TryAs_Number st2 rhs) of
                 Some (x, y) \<Rightarrow> Own_Number (x * y) st2
               | None \<Rightarrow> Throw (runtime_error ''Mult Error'') st2))"

definition Div_Execute ::
  "executor \<Rightarrow> Statement \<Rightarrow> Statement \<Rightarrow> cref \<Rightarrow> State \<Rightarrow> ObjectHolder result" where
  "Div_Execute ex l r c st =
     bind (ex l c st)
       (\<lambda>lhs st1.
          bind (ex r c st1)
            (\<lambda>rhs st2.
               case both (TryAs_Number st2 lhs) (TryAs_Number st2 rhs) of
                 Some (x, y) \<Rightarrow>
                   if y = 0 then Throw (runtime_error ''Div by 0'') st2
                   else Own_Number (int_div x y) st2
               | None \<Rightarrow> Throw (runtime_error ''Div Error'') st2))"

fun Compound_Execute :: "executor \<Rightarrow> Statement list \<Rightarrow> cref \<Rightarrow> State \<Rightarrow> ObjectHolder result" where
  "Compound_Execute ex [] c st = Ok None st"
| "Compound_Execute ex (instruction # instructions) c st =
     bind (ex instruction c st) (\<lambda>v st1. Compound_Execute ex instructions c st1)"

text \<open>
  \<^verbatim>\<open>Return::Execute\<close> prints the result into a string stream and throws a
  \<^verbatim>\<open>runtime_error\<close> with that text. \<^verbatim>\<open>result.Get()->Print\<close> dereferences the pointer.
\<close>

definition Return_Execute ::
  "executor \<Rightarrow> printer \<Rightarrow> Statement \<Rightarrow> cref \<Rightarrow> State \<Rightarrow> ObjectHolder result" where
  "Return_Execute ex pr statement c st =
     bind (ex statement c st)
       (\<lambda>result st1.
          case result of
            None \<Rightarrow> Undefined
          | Some a \<Rightarrow> bind (pr a st1) (\<lambda>ss st2. Throw (runtime_error ss) st2))"

definition ClassDefinition_Execute :: "ObjectHolder \<Rightarrow> cref \<Rightarrow> State \<Rightarrow> ObjectHolder result" where
  "ClassDefinition_Execute cls c st =
     (case TryAs_Class st cls of
        None \<Rightarrow> Undefined
      | Some cl \<Rightarrow>
          (case closure_store c (GetName cl) cls st of
             None \<Rightarrow> Undefined
           | Some st1 \<Rightarrow> Ok cls st1))"

definition IfElse_Execute ::
  "executor \<Rightarrow> Statement \<Rightarrow> Statement \<Rightarrow> Statement option \<Rightarrow> cref \<Rightarrow> State
   \<Rightarrow> ObjectHolder result" where
  "IfElse_Execute ex condition if_body else_body c st =
     bind (ex condition c st)
       (\<lambda>v st1.
          case TryAs_Bool st1 v of
            None \<Rightarrow> Undefined
          | Some result \<Rightarrow>
              if result then ex if_body c st1
              else (case else_body of Some e \<Rightarrow> ex e c st1 | None \<Rightarrow> Ok None st1))"

definition Or_Execute ::
  "executor \<Rightarrow> Statement \<Rightarrow> Statement \<Rightarrow> cref \<Rightarrow> State \<Rightarrow> ObjectHolder result" where
  "Or_Execute ex l r c st =
     bind (ex l c st)
       (\<lambda>lhs st1.
          bind (ex r c st1)
            (\<lambda>rhs st2.
               case both (TryAs_Bool st2 lhs) (TryAs_Bool st2 rhs) of
                 Some (x, y) \<Rightarrow>
                   if x = False then Own (Bool (x \<or> y)) st2 else Own (Bool True) st2
               | None \<Rightarrow> Throw (runtime_error ''Or Error'') st2))"

definition And_Execute ::
  "executor \<Rightarrow> Statement \<Rightarrow> Statement \<Rightarrow> cref \<Rightarrow> State \<Rightarrow> ObjectHolder result" where
  "And_Execute ex l r c st =
     bind (ex l c st)
       (\<lambda>lhs st1.
          bind (ex r c st1)
            (\<lambda>rhs st2.
               case both (TryAs_Bool st2 lhs) (TryAs_Bool st2 rhs) of
                 Some (x, y) \<Rightarrow>
                   if x = True then Own (Bool (x \<and> y)) st2 else Own (Bool False) st2
               | None \<Rightarrow> Throw (runtime_error ''And Error'') st2))"

definition Not_Execute :: "executor \<Rightarrow> Statement \<Rightarrow> cref \<Rightarrow> State \<Rightarrow> ObjectHolder result" where
  "Not_Execute ex argument c st =
     bind (ex argument c st)
       (\<lambda>lhs st1.
          case TryAs_Bool st1 lhs of
            Some x \<Rightarrow> if x = True then Own (Bool False) st1 else Own (Bool True) st1
          | None \<Rightarrow> Throw (runtime_error ''Not Error'') st1)"

text \<open>
  \<^verbatim>\<open>Comparison::Execute\<close> executes both operands as arguments of one call of the comparator,
  so C++ leaves open which of them is executed first. \<open>Comparison_in_order\<close> is the function
  for each of the two orders.
\<close>

definition Comparison_in_order ::
  "bool \<Rightarrow> executor \<Rightarrow> Comparator \<Rightarrow> Statement \<Rightarrow> Statement \<Rightarrow> cref \<Rightarrow> State
   \<Rightarrow> ObjectHolder result" where
  "Comparison_in_order right_one_first ex cmp l r c st =
     (if right_one_first then
        bind (ex r c st)
          (\<lambda>rhs st1.
             bind (ex l c st1)
               (\<lambda>lhs st2.
                  bind (Comparator_call cmp ex lhs rhs st2) (\<lambda>b st3. Own (Bool b) st3)))
      else
        bind (ex l c st)
          (\<lambda>lhs st1.
             bind (ex r c st1)
               (\<lambda>rhs st2.
                  bind (Comparator_call cmp ex lhs rhs st2) (\<lambda>b st3. Own (Bool b) st3))))"

text \<open>\<^verbatim>\<open>Comparison::Execute\<close>, in the order of the compiled program.\<close>

definition Comparison_Execute ::
  "executor \<Rightarrow> Comparator \<Rightarrow> Statement \<Rightarrow> Statement \<Rightarrow> cref \<Rightarrow> State
   \<Rightarrow> ObjectHolder result" where
  "Comparison_Execute ex cmp l r c st = Comparison_in_order (right_first st) ex cmp l r c st"

text \<open>
  \<^verbatim>\<open>NewInstance::Execute\<close>: \<open>instance\<close> is the address of the member \<^verbatim>\<open>instance\<close> of the node,
  which the constructor of the node built.
\<close>

definition NewInstance_Execute ::
  "executor \<Rightarrow> addr \<Rightarrow> Statement list \<Rightarrow> cref \<Rightarrow> State \<Rightarrow> ObjectHolder result" where
  "NewInstance_Execute ex instance args c st =
     bind (Execute_args ex args c st)
       (\<lambda>vs st1.
          case deref st1 instance of
            Some (ClassInstance cls flds) \<Rightarrow>
              if HasMethod cls INIT_METHOD (length vs) then
                bind (ClassInstance_Call ex instance INIT_METHOD vs st1)
                  (\<lambda>r st2. Ok (Some instance) st2)
              else Ok (Some instance) st1
          | _ \<Rightarrow> Undefined)"

text \<open>
  \<^verbatim>\<open>ex.what()\<close> is a C string: a \<^verbatim>\<open>std::string\<close> built from it ends before the first NUL
  character of the message.
\<close>

definition c_str :: "string \<Rightarrow> string" where
  "c_str m = takeWhile (\<lambda>ch. ch \<noteq> CHR 0x00) m"

text \<open>
  \<^verbatim>\<open>MethodBody::Execute\<close>: the handler is for \<^verbatim>\<open>std::exception\<close>, the base of every exception
  of the evaluator, and returns a new \<^verbatim>\<open>String\<close> built from \<^verbatim>\<open>ex.what()\<close>.
\<close>

definition MethodBody_Execute ::
  "executor \<Rightarrow> Statement \<Rightarrow> cref \<Rightarrow> State \<Rightarrow> ObjectHolder result" where
  "MethodBody_Execute ex body_stmt c st =
     (case ex body_stmt c st of
        Ok result st1 \<Rightarrow> Ok None st1
      | Throw e st1 \<Rightarrow> Own (String (c_str (what e))) st1
      | Undefined \<Rightarrow> Undefined
      | Undetermined \<Rightarrow> Undetermined
      | OutOfFuel \<Rightarrow> OutOfFuel)"

text \<open>The virtual call \<^verbatim>\<open>Execute(closure, context)\<close>.\<close>

definition Execute_node :: "executor \<Rightarrow> printer \<Rightarrow> executor" where
  "Execute_node ex pr s c st =
     (case s of
        ValueStatement a \<Rightarrow> ValueStatement_Execute a st
      | VariableValue var_names \<Rightarrow> VariableValue_Execute var_names c st
      | Assignment var rv \<Rightarrow> Assignment_Execute ex var rv c st
      | FieldAssignment object field_name rv \<Rightarrow> FieldAssignment_Execute ex object field_name rv c st
      | NoneStatement \<Rightarrow> Ok None st
      | Print args nm \<Rightarrow> Print_Execute ex pr args nm c st
      | MethodCall object m args \<Rightarrow> MethodCall_Execute ex object m args c st
      | NewInstance instance args \<Rightarrow> NewInstance_Execute ex instance args c st
      | Stringify argument \<Rightarrow> Stringify_Execute ex pr argument c st
      | Add l r \<Rightarrow> Add_Execute ex l r c st
      | Sub l r \<Rightarrow> Sub_Execute ex l r c st
      | Mult l r \<Rightarrow> Mult_Execute ex l r c st
      | Div l r \<Rightarrow> Div_Execute ex l r c st
      | Or l r \<Rightarrow> Or_Execute ex l r c st
      | And l r \<Rightarrow> And_Execute ex l r c st
      | NotStatement argument \<Rightarrow> Not_Execute ex argument c st
      | Compound instructions \<Rightarrow> Compound_Execute ex instructions c st
      | MethodBody body_stmt \<Rightarrow> MethodBody_Execute ex body_stmt c st
      | Return statement \<Rightarrow> Return_Execute ex pr statement c st
      | ClassDefinition cls \<Rightarrow> ClassDefinition_Execute cls c st
      | IfElse condition if_body else_body \<Rightarrow> IfElse_Execute ex condition if_body else_body c st
      | Comparison cmp l r \<Rightarrow> Comparison_Execute ex cmp l r c st)"

text \<open>
  The evaluator. A program can call methods without end, so \<open>Execute\<close> and \<open>Object_Print\<close>
  take fuel: every call of \<^verbatim>\<open>Execute\<close> or \<^verbatim>\<open>Print\<close> on a child costs one unit, and \<open>OutOfFuel\<close>
  is the outcome when none is left.
\<close>

fun Execute :: "nat \<Rightarrow> executor"
and Object_Print :: "nat \<Rightarrow> printer" where
  "Execute 0 s c st = OutOfFuel"
| "Execute (Suc n) s c st = Execute_node (Execute n) (Object_Print n) s c st"
| "Object_Print 0 a st = OutOfFuel"
| "Object_Print (Suc n) a st = Print_object (Execute n) (Object_Print n) a st"

section \<open>Properties of the lexer\<close>

subsection \<open>The readers push no structural token\<close>

text \<open>A token is plain when it is none of \<open>IndentT\<close>, \<open>DedentT\<close> and \<open>EofT\<close>.\<close>

definition plain :: "Token \<Rightarrow> bool" where
  "plain t \<longleftrightarrow> t \<noteq> IndentT \<and> t \<noteq> DedentT \<and> t \<noteq> EofT"

lemma keywords_tab_plain: "keywords_tab s = Some t \<Longrightarrow> plain t"
  by (auto simp: keywords_tab_def plain_def split: if_splits)

lemma operations_char_tab_plain: "operations_char_tab c = Some t \<Longrightarrow> plain t"
  by (auto simp: operations_char_tab_def plain_def split: if_splits)

lemma operations_tab_plain: "operations_tab s = Some t \<Longrightarrow> plain t"
  by (auto simp: operations_tab_def plain_def split: if_splits)

lemma chars_tab_plain: "chars_tab c = Some t \<Longrightarrow> plain t"
  by (auto simp: chars_tab_def plain_def split: if_splits)

lemma ReadString_plain: "ReadString s = (ts, rest) \<Longrightarrow> list_all plain ts"
  by (auto simp: ReadString_def plain_def Let_def split: list.splits prod.splits)

lemma ReadId_finish_plain: "list_all plain (ReadId_finish i)"
  by (auto simp: ReadId_finish_def plain_def dest: keywords_tab_plain split: option.splits)

lemma plain_IdT: "plain (IdT i)"
  by (simp add: plain_def)

lemma ReadId_loop_plain: "list_all plain (fst (ReadId_loop s i))"
  by (induction s i rule: ReadId_loop.induct) (auto simp: ReadId_finish_plain plain_IdT)

lemma ReadId_plain: "ReadId s = (ts, rest) \<Longrightarrow> list_all plain ts"
  using ReadId_loop_plain [of s "[]"] by (simp add: ReadId_def)

lemma ReadOperation_plain: "ReadOperation s = Inr (ts, rest) \<Longrightarrow> list_all plain ts"
  by (auto simp: ReadOperation_def dest: operations_tab_plain operations_char_tab_plain
           split: list.splits if_splits option.splits)

lemma ReadChar_plain: "ReadChar s = Inr (ts, rest) \<Longrightarrow> list_all plain ts"
  by (auto simp: ReadChar_def dest: chars_tab_plain split: list.splits option.splits)

lemma ReadNumber_plain: "ReadNumber s = Inr (ts, rest) \<Longrightarrow> list_all plain ts"
  by (auto simp: ReadNumber_def Let_def plain_def split: list.splits sum.splits if_splits)

lemma tokenise_plain:
  "tokenise s tokens = Inr tokens' \<Longrightarrow> \<exists>ts. tokens' = tokens @ ts \<and> list_all plain ts"
proof (induction s tokens rule: tokenise.induct)
  case (1 tokens)
  then show ?case by simp
next
  case (2 c cs tokens)
  note res = \<open>tokenise (c # cs) tokens = Inr tokens'\<close>
  have step: "\<exists>us. tokens' = tokens @ us \<and> list_all plain us"
    if "\<exists>us. tokens' = (tokens @ ts) @ us \<and> list_all plain us" "list_all plain ts" for ts
    using that by auto
  show ?case
  proof (cases "c = space")
    case True
    with 2 show ?thesis by simp
  next
    case ns: False
    show ?thesis
    proof (cases "c = squote \<or> c = dquote")
      case True
      obtain ts rest where r: "ReadString (c # cs) = (ts, rest)" by (cases "ReadString (c # cs)")
      from res ns True r have "tokenise rest (tokens @ ts) = Inr tokens'" by simp
      from 2(2)[OF ns True r[symmetric] this] ReadString_plain [OF r]
      show ?thesis by (rule step)
    next
      case nq: False
      show ?thesis
      proof (cases "operations_char_tab c \<noteq> None")
        case True
        from res ns nq True obtain ts rest where r: "ReadOperation (c # cs) = Inr (ts, rest)"
          by (auto split: sum.splits)
        from res ns nq True r have "tokenise rest (tokens @ ts) = Inr tokens'" by simp
        from 2(3)[OF ns nq True r refl this] ReadOperation_plain [OF r]
        show ?thesis by (rule step)
      next
        case no: False
        show ?thesis
        proof (cases "chars_tab c \<noteq> None")
          case True
          from res ns nq no True obtain ts rest where r: "ReadChar (c # cs) = Inr (ts, rest)"
            by (auto split: sum.splits)
          from res ns nq no True r have "tokenise rest (tokens @ ts) = Inr tokens'" by simp
          from 2(4)[OF ns nq no True r refl this] ReadChar_plain [OF r]
          show ?thesis by (rule step)
        next
          case nc: False
          show ?thesis
          proof (cases "numbers_tab c")
            case True
            from res ns nq no nc True obtain ts rest where r: "ReadNumber (c # cs) = Inr (ts, rest)"
              by (auto split: sum.splits)
            from res ns nq no nc True r have "tokenise rest (tokens @ ts) = Inr tokens'" by simp
            from 2(5)[OF ns nq no nc True r refl this] ReadNumber_plain [OF r]
            show ?thesis by (rule step)
          next
            case nn: False
            obtain ts rest where r: "ReadId (c # cs) = (ts, rest)" by (cases "ReadId (c # cs)")
            from res ns nq no nc nn r have "tokenise rest (tokens @ ts) = Inr tokens'" by simp
            from 2(6)[OF ns nq no nc nn r[symmetric] this] ReadId_plain [OF r]
            show ?thesis by (rule step)
          qed
        qed
      qed
    qed
  qed
qed

subsection \<open>Indents and dedents balance\<close>

definition balanced :: "Token list \<times> nat \<Rightarrow> bool" where
  "balanced s \<longleftrightarrow>
     (case s of (tokens, indent_count) \<Rightarrow>
        EofT \<notin> set tokens \<and>
        count_list tokens IndentT = count_list tokens DedentT + indent_count)"

lemma count_list_plain:
  "list_all plain ts \<Longrightarrow>
   count_list ts IndentT = 0 \<and> count_list ts DedentT = 0 \<and> EofT \<notin> set ts"
  by (induction ts) (auto simp: plain_def)

lemma count_list_replicate: "count_list (replicate n x) y = (if x = y then n else 0)"
  by (induction n) auto

lemma ReadIndents_balanced:
  "ReadIndents line old = (ts, new, rest) \<Longrightarrow>
   EofT \<notin> set ts \<and> count_list ts IndentT + old = count_list ts DedentT + new"
  by (auto simp: ReadIndents_def count_list_replicate split: scan.splits if_splits)

lemma Lexer_line_balanced:
  assumes "balanced s" "Lexer_line line s = Inr s'"
  shows "balanced s'"
proof -
  obtain tokens ic where s: "s = (tokens, ic)" by (cases s)
  show ?thesis
  proof (cases "line = [] \<or> hd line = hash")
    case True
    with assms s show ?thesis by (auto simp: Lexer_line_def)
  next
    case False
    obtain ts ic' rest where ri: "ReadIndents line ic = (ts, ic', rest)"
      by (cases "ReadIndents line ic")
    from assms(2) s False ri obtain tokens' where
      tk: "tokenise rest (tokens @ ts) = Inr tokens'" and
      s': "s' = (if tokens' \<noteq> [] then tokens' @ [NewlineT] else tokens', ic')"
      by (auto simp: Lexer_line_def split: sum.splits)
    from tokenise_plain [OF tk] obtain us where
      us: "tokens' = (tokens @ ts) @ us" "list_all plain us" by blast
    from assms(1) s have b: "EofT \<notin> set tokens"
      "count_list tokens IndentT = count_list tokens DedentT + ic"
      by (auto simp: balanced_def)
    from ReadIndents_balanced [OF ri] count_list_plain [OF us(2)] b us(1) s'
    show ?thesis by (auto simp: balanced_def)
  qed
qed

lemma Lexer_lines_balanced:
  "balanced s \<Longrightarrow> Lexer_lines ls s = Inr s' \<Longrightarrow> balanced s'"
  by (induction ls arbitrary: s) (auto split: sum.splits dest: Lexer_line_balanced)

text \<open>
  Claim C8. Whenever the constructor returns (it throws only when \<^verbatim>\<open>std::stoi\<close> refuses a
  numeric literal), the token sequence is not empty, its last token is \<open>EofT\<close>, it holds
  exactly one \<open>EofT\<close>, and it holds as many \<open>DedentT\<close> as \<open>IndentT\<close> tokens.
\<close>

theorem Lexer_ends_with_one_Eof_and_is_balanced:
  assumes "Lexer input = Inr tokens"
  shows "tokens \<noteq> [] \<and> last tokens = EofT \<and> count_list tokens EofT = 1
         \<and> count_list tokens DedentT = count_list tokens IndentT"
proof -
  from assms obtain ts ic where
    ls: "Lexer_lines (getlines input []) ([], 0) = Inr (ts, ic)" and
    tokens: "tokens = ts @ replicate ic DedentT @ [EofT]"
    by (auto simp: Lexer_def split: sum.splits)
  have "balanced ([], 0)" by (simp add: balanced_def)
  from Lexer_lines_balanced [OF this ls]
  have "EofT \<notin> set ts" "count_list ts IndentT = count_list ts DedentT + ic"
    by (auto simp: balanced_def)
  with tokens show ?thesis by (simp add: count_list_replicate count_list_0_iff)
qed

theorem Lexer_ends_with_one_Eof_and_is_balanced_witness:
  "Lexer (''if x:'' @ [newline] @ ''    y'') =
     Inr [IfT, IdT ''x'', CharT (CHR '':''), NewlineT, IndentT, IndentT, IdT ''y'', NewlineT,
          DedentT, DedentT, EofT]
   \<and> last [IfT, IdT ''x'', CharT (CHR '':''), NewlineT, IndentT, IndentT, IdT ''y'', NewlineT,
          DedentT, DedentT, EofT] = EofT
   \<and> count_list [IfT, IdT ''x'', CharT (CHR '':''), NewlineT, IndentT, IndentT, IdT ''y'',
          NewlineT, DedentT, DedentT, EofT] EofT = 1
   \<and> count_list [IfT, IdT ''x'', CharT (CHR '':''), NewlineT, IndentT, IndentT, IdT ''y'',
          NewlineT, DedentT, DedentT, EofT] DedentT
     = count_list [IfT, IdT ''x'', CharT (CHR '':''), NewlineT, IndentT, IndentT, IdT ''y'',
          NewlineT, DedentT, DedentT, EofT] IndentT"
proof -
  have l: "Lexer (''if x:'' @ [newline] @ ''    y'') =
     Inr [IfT, IdT ''x'', CharT (CHR '':''), NewlineT, IndentT, IndentT, IdT ''y'', NewlineT,
          DedentT, DedentT, EofT]"
    by code_simp
  from Lexer_ends_with_one_Eof_and_is_balanced [OF l] l show ?thesis by simp
qed


subsection \<open>Lines with an odd number of leading spaces\<close>

text \<open>
  Claim C6. The claim asks that a line with an odd number of leading spaces is indented by
  its complete pairs of spaces. In \<^verbatim>\<open>ReadIndents\<close> the branch for a space that no second
  space follows is \<^verbatim>\<open>return\<close>, not \<^verbatim>\<open>break\<close>: the function is left before the
  comparison with \<^verbatim>\<open>old_indent\<close>, so no token is pushed and the stored level is kept. On
  three spaces and \<^verbatim>\<open>x\<close> with level 0 nothing is pushed and the level stays 0, and the whole
  input lexes without any \<open>IndentT\<close>; with two spaces the \<open>IndentT\<close> is there.
\<close>

theorem ReadIndents_odd_spaces_pushes_nothing:
  "ReadIndents ''   x'' 0 = ([], 0, ''x'')
   \<and> Lexer ''   x'' = Inr [IdT ''x'', NewlineT, EofT]
   \<and> Lexer ''  x'' = Inr [IndentT, IdT ''x'', NewlineT, DedentT, EofT]"
  by code_simp

text \<open>
  The same for every odd number of leading spaces before a character that is not a space,
  and every stored level.
\<close>

lemma ReadIndents_loop_odd:
  "x \<noteq> space \<Longrightarrow>
   ReadIndents_loop c (replicate (2 * k + 1) space @ x # rest) indent = Returned (x # rest)"
  by (induction k arbitrary: c indent) simp_all

lemma ReadIndents_odd:
  "x \<noteq> space \<Longrightarrow>
   ReadIndents (replicate (2 * k + 1) space @ x # rest) old_indent = ([], old_indent, x # rest)"
  using ReadIndents_loop_odd [of x "CHR 0xFF" k rest 0]
  by (simp add: ReadIndents_def del: replicate.simps)

subsection \<open>Lines of spaces only\<close>

text \<open>
  Claim C7. The claim asks that a line of whitespace only contributes no token. The
  constructor skips a line only when it is empty or starts with \<^verbatim>\<open>#\<close>; after any other
  line it pushes a \<open>NewlineT\<close> when \<^verbatim>\<open>tokens_\<close>, the whole vector, is not empty. So a line
  of two spaces after the line \<^verbatim>\<open>x\<close> contributes a \<open>NewlineT\<close> of its own, while the same
  line before \<^verbatim>\<open>x\<close>, and an empty line after it, contribute nothing.
\<close>

theorem Lexer_blank_line_pushes_Newline:
  "Lexer (''x'' @ [newline] @ ''  '') = Inr [IdT ''x'', NewlineT, NewlineT, EofT]
   \<and> Lexer (''  '' @ [newline] @ ''x'') = Inr [IdT ''x'', NewlineT, EofT]
   \<and> Lexer (''x'' @ [newline, newline]) = Inr [IdT ''x'', NewlineT, EofT]"
  by code_simp

text \<open>The same for every line of spaces only, after any tokens.\<close>

lemma ReadIndents_loop_spaces:
  "ReadIndents_loop c (replicate (Suc k) space) indent = Returned []"
proof (induction k arbitrary: c indent rule: less_induct)
  case (less k)
  show ?case
  proof (cases k)
    case 0
    then show ?thesis by simp
  next
    case (Suc j)
    show ?thesis
    proof (cases j)
      case 0
      with Suc show ?thesis by simp
    next
      case (Suc i)
      with \<open>k = Suc j\<close> less.IH [of i] show ?thesis by simp
    qed
  qed
qed

lemma Lexer_line_spaces:
  "Lexer_line (replicate (Suc k) space) (tokens, indent_count)
     = Inr (if tokens \<noteq> [] then tokens @ [NewlineT] else tokens, indent_count)"
  by (simp add: Lexer_line_def ReadIndents_def ReadIndents_loop_spaces del: replicate_Suc)

section \<open>Properties of the evaluator\<close>

subsection \<open>Basic facts\<close>

lemma bind_Ok [simp]: "bind (Ok v st) f = f v st"
  by (simp add: bind_def)

lemma bind_Throw [simp]: "bind (Throw e st) f = Throw e st"
  by (simp add: bind_def)

lemma bind_Undefined [simp]: "bind Undefined f = Undefined"
  by (simp add: bind_def)

lemma bind_Undetermined [simp]: "bind Undetermined f = Undetermined"
  by (simp add: bind_def)

lemma bind_OutOfFuel [simp]: "bind OutOfFuel f = OutOfFuel"
  by (simp add: bind_def)

lemma show_nat_not_empty: "show_nat n \<noteq> []"
  by (subst show_nat.simps) simp


subsection \<open>A program to run\<close>

text \<open>
  A class \<open>Counter\<close> with the methods \<^verbatim>\<open>get()\<close>, which returns the number one, \<^verbatim>\<open>half(x)\<close>,
  whose body divides one by zero, and \<^verbatim>\<open>make()\<close>, whose body is \<^verbatim>\<open>self.last = Plain()\<close>; and a
  class \<open>Plain\<close> with no method. The heap holds the constants of the program, the two
  classes, and the instances that the two \<^verbatim>\<open>NewInstance\<close> nodes of the program hold: the one
  of \<^verbatim>\<open>c = Counter()\<close> at address 5 and the one of \<^verbatim>\<open>Plain()\<close>, in the body of \<^verbatim>\<open>make\<close>, at
  address 7. In \<open>state3\<close> the variable \<open>c\<close> is bound already. The program is one compiled
  to execute the right operand of a comparison first.
\<close>

definition Counter :: Class where
  "Counter =
     Class ''Counter''
       [\<lparr>name = ''get'', formal_params = [], body = MethodBody (Return (ValueStatement 0))\<rparr>,
        \<lparr>name = ''half'', formal_params = [''x''],
         body = MethodBody (Div (ValueStatement 0) (ValueStatement 1))\<rparr>,
        \<lparr>name = ''make'', formal_params = [],
         body = MethodBody (FieldAssignment [''self''] ''last'' (NewInstance 7 []))\<rparr>]
       None"

definition Plain :: Class where
  "Plain = Class ''Plain'' [] None"

definition heap0 :: "Object list" where
  "heap0 =
     [Number 1, Number 0, String [], Number 2,
      ClassObject Counter, ClassInstance Counter [(''self'', Some 5)],
      ClassObject Plain, ClassInstance Plain [(''self'', Some 7)], Bool True, Bool False]"

definition state0 :: State where
  "state0 = \<lparr>heap = heap0, locals = [[]], out_stream = [], right_first = True\<rparr>"

definition state3 :: State where
  "state3 =
     \<lparr>heap = heap0, locals = [[(''c'', Some 5)]], out_stream = [], right_first = True\<rparr>"

subsection \<open>NewInstance\<close>

text \<open>
  Claim C3. statement.h documents \<^verbatim>\<open>NewInstance\<close> as creating a new instance of the class,
  and the claim asks for a fresh instance at every execution. The node holds one
  \<^verbatim>\<open>ClassInstance\<close> as a member and \<^verbatim>\<open>Execute\<close> returns \<^verbatim>\<open>Share(instance)\<close>: an execution
  returns the address of the member and allocates nothing. In the program
  \<^verbatim>\<open>c.make()\<close>, \<^verbatim>\<open>a = c.last\<close>, \<^verbatim>\<open>c.make()\<close>, \<^verbatim>\<open>b = c.last\<close> the node \<^verbatim>\<open>Plain()\<close> is executed twice, and
  \<open>a\<close> and \<open>b\<close> are bound to the same instance, the one at address 7.
\<close>

theorem NewInstance_twice_same_instance:
  "Execute 2 (NewInstance 7 []) (Local 0) state3 = Ok (Some 7) state3
   \<and> Execute 6
       (Compound [MethodCall (VariableValue [''c'']) ''make'' [],
                  Assignment ''a'' (VariableValue [''c'', ''last'']),
                  MethodCall (VariableValue [''c'']) ''make'' [],
                  Assignment ''b'' (VariableValue [''c'', ''last''])])
       (Local 0) state3
     = Ok None
         \<lparr>heap = heap0[5 := ClassInstance Counter [(''self'', Some 5), (''last'', Some 7)]],
          locals = [[(''c'', Some 5), (''a'', Some 7), (''b'', Some 7)],
                    [(''self'', Some 5)], [(''self'', Some 5)]],
          out_stream = [], right_first = True\<rparr>"
  by code_simp

lemma NewInstance_returns_member:
  "NewInstance_Execute ex inst args c st = Ok v st' \<Longrightarrow> v = Some inst"
  by (auto simp: NewInstance_Execute_def bind_def
           split: result.splits option.splits Object.splits if_splits)

subsection \<open>Stringify\<close>


text \<open>
  The result of an addition is a new object, which the temporary holder may own alone (it
  does, and the object is freed before \<^verbatim>\<open>Stringify\<close> prints it): for \<^verbatim>\<open>str(1 + 2)\<close> no outcome
  is determined here.
\<close>

lemma Stringify_of_a_sum:
  "Execute 2 (Add (ValueStatement 0) (ValueStatement 3)) (Local 0) state0
     = Ok (Some 10) (state0\<lparr>heap := heap0 @ [Number 3]\<rparr>)
   \<and> temporary_may_own state0 (Some 10)
   \<and> Execute 3 (Stringify (Add (ValueStatement 0) (ValueStatement 3))) (Local 0) state0
       = Undetermined"
  by code_simp



subsection \<open>Derived comparators\<close>

text \<open>
  Claim C9. \<open>ex\<close> is the evaluator the comparators call a method with (\<open>Execute n\<close> for any
  \<open>n\<close>). The comparisons are calls, evaluated in the order of the C++ expressions: where a
  derived comparator calls \<^verbatim>\<open>Less\<close> and then \<^verbatim>\<open>Equal\<close>, \<^verbatim>\<open>Equal\<close> runs in the state \<^verbatim>\<open>Less\<close>
  left (the same state, unless \<^verbatim>\<open>__lt__\<close> of a class instance changed it). Whenever these
  calls succeed, with results \<open>l\<close> and \<open>e\<close>: \<^verbatim>\<open>NotEqual\<close> is \<open>\<not> e\<close>, \<^verbatim>\<open>Greater\<close> is
  \<open>\<not> l \<and> \<not> e\<close>, \<^verbatim>\<open>LessOrEqual\<close> is \<open>l \<or> e\<close> and \<^verbatim>\<open>GreaterOrEqual\<close> is \<open>\<not> l\<close>.
\<close>

theorem derived_comparators:
  "(Equal ex lhs rhs st = Ok e st' \<longrightarrow> NotEqual ex lhs rhs st = Ok (\<not> e) st')
   \<and> (Less ex lhs rhs st = Ok l st1 \<and> Equal ex lhs rhs st1 = Ok e st2 \<longrightarrow>
        Greater ex lhs rhs st = Ok (\<not> l \<and> \<not> e) (if l then st1 else st2)
        \<and> LessOrEqual ex lhs rhs st = Ok (l \<or> e) (if l then st1 else st2))
   \<and> (Less ex lhs rhs st = Ok l st1 \<longrightarrow> GreaterOrEqual ex lhs rhs st = Ok (\<not> l) st1)"
  by (simp add: NotEqual_def Greater_def LessOrEqual_def GreaterOrEqual_def)

theorem derived_comparators_witness:
  "Equal (Execute 0) (Some 0) (Some 3) state0 = Ok False state0
   \<and> Less (Execute 0) (Some 0) (Some 3) state0 = Ok True state0
   \<and> NotEqual (Execute 0) (Some 0) (Some 3) state0 = Ok True state0
   \<and> Greater (Execute 0) (Some 0) (Some 3) state0 = Ok False state0
   \<and> LessOrEqual (Execute 0) (Some 0) (Some 3) state0 = Ok True state0
   \<and> GreaterOrEqual (Execute 0) (Some 0) (Some 3) state0 = Ok False state0"
proof -
  have e: "Equal (Execute 0) (Some 0) (Some 3) state0 = Ok False state0"
    by code_simp
  have l: "Less (Execute 0) (Some 0) (Some 3) state0 = Ok True state0"
    by code_simp
  from derived_comparators
    [of "Execute 0" "Some 0" "Some 3" state0 False state0 True state0 state0] e l
  show ?thesis by simp
qed

text \<open>
  On values that are not class instances the primitive comparisons call no method and leave
  the state as it is, so all the comparisons of claim C9 are then made in one state.
\<close>

lemma Equal_pure:
  "TryAs_ClassInstance st lhs = None \<Longrightarrow> Equal ex lhs rhs st = Ok e st' \<Longrightarrow> st' = st"
  by (auto simp: Equal_def split: option.splits if_splits)

lemma Less_pure:
  "TryAs_ClassInstance st lhs = None \<Longrightarrow> Less ex lhs rhs st = Ok l st' \<Longrightarrow> st' = st"
  by (auto simp: Less_def split: option.splits if_splits)

lemma derived_comparators_in_one_state:
  assumes "TryAs_ClassInstance st lhs = None"
      and "Equal ex lhs rhs st = Ok e st1" and "Less ex lhs rhs st = Ok l st2"
  shows "st1 = st \<and> st2 = st
         \<and> NotEqual ex lhs rhs st = Ok (\<not> e) st
         \<and> Greater ex lhs rhs st = Ok (\<not> l \<and> \<not> e) st
         \<and> LessOrEqual ex lhs rhs st = Ok (l \<or> e) st
         \<and> GreaterOrEqual ex lhs rhs st = Ok (\<not> l) st"
proof -
  from Equal_pure [OF assms(1,2)] Less_pure [OF assms(1,3)]
  have "st1 = st" "st2 = st" by simp_all
  with assms(2,3) show ?thesis
    by (simp add: NotEqual_def Greater_def LessOrEqual_def GreaterOrEqual_def)
qed

subsection \<open>Printing an instance\<close>

text \<open>
  Claim C10. For the instance at \<open>a\<close>, whose class or an ancestor defines \<^verbatim>\<open>__str__\<close> as the
  method \<open>m\<close>, with any number of formal parameters: printing executes the body of \<open>m\<close> in
  the state as it is (no closure is added) with the fields of the instance as the closure,
  and prints the result; where \<open>m\<close> has formal parameters, \<^verbatim>\<open>Call\<close> with no argument refuses
  the same method. With the fields as the closure, a variable reads the field of that name,
  and an assignment to a variable writes the field of that name into the instance.
\<close>

theorem Print_executes_str_on_the_fields:
  assumes "deref st a = Some (ClassInstance cls flds)"
      and "GetMethod cls STR_METHOD = Some m"
  shows "Object_Print (Suc n) a st
           = bind (Execute n (body m) (Fields a) st)
               (\<lambda>r st'. case r of None \<Rightarrow> Undefined | Some b \<Rightarrow> Object_Print n b st')
         \<and> get_closure st (Fields a) = Some flds
         \<and> (formal_params m \<noteq> [] \<longrightarrow>
              ClassInstance_Call ex a STR_METHOD [] st = Throw (runtime_error ''Not implemented'') st)
         \<and> (map_of flds x = Some (Some v) \<longrightarrow>
              Execute (Suc k) (VariableValue [x]) (Fields a) st = Ok (Some v) st)
         \<and> (Execute k rv (Fields a) st = Ok w st1 \<and> deref st1 a = Some (ClassInstance cls1 flds1) \<longrightarrow>
              Execute (Suc k) (Assignment y rv) (Fields a) st
                = Ok w (st1\<lparr>heap := (heap st1)[a := ClassInstance cls1 (AList.update y w flds1)]\<rparr>))"
  using assms
  by (simp add: Print_object_def ClassInstance_Call_def Execute_node_def
        VariableValue_Execute_def Assignment_Execute_def closure_store_def)

text \<open>
  A class whose \<^verbatim>\<open>__str__\<close> has a formal parameter; its body stores the field \<open>x\<close> in the
  variable \<open>seen\<close> and returns \<open>x\<close>. Printing the instance gives the text of the field, and
  the instance has the field \<open>seen\<close> afterwards.
\<close>

definition str_method :: Method where
  "str_method =
     \<lparr>name = ''__str__'', formal_params = [''unused''],
      body = MethodBody (Compound [Assignment ''seen'' (VariableValue [''x'']),
                                   Return (VariableValue [''x''])])\<rparr>"

definition Point :: Class where
  "Point = Class ''Point'' [str_method] None"

definition state1 :: State where
  "state1 = \<lparr>heap = [Number 2, ClassInstance Point [(''self'', Some 1), (''x'', Some 0)]],
             locals = [[]], out_stream = [], right_first = True\<rparr>"

theorem Print_executes_str_on_the_fields_witness:
  "deref state1 1 = Some (ClassInstance Point [(''self'', Some 1), (''x'', Some 0)])
   \<and> GetMethod Point STR_METHOD = Some str_method
   \<and> Object_Print 6 1 state1
       = Ok ''2''
           \<lparr>heap = [Number 2,
                    ClassInstance Point [(''self'', Some 1), (''x'', Some 0), (''seen'', Some 0)],
                    String ''2''],
            locals = [[]], out_stream = [], right_first = True\<rparr>
   \<and> ClassInstance_Call (Execute 5) 1 STR_METHOD [] state1
       = Throw (runtime_error ''Not implemented'') state1
   \<and> Execute 2 (VariableValue [''x'']) (Fields 1) state1 = Ok (Some 0) state1
   \<and> Execute 2 (Assignment ''seen'' (VariableValue [''x''])) (Fields 1) state1
       = Ok (Some 0)
           \<lparr>heap = [Number 2,
                    ClassInstance Point [(''self'', Some 1), (''x'', Some 0), (''seen'', Some 0)]],
            locals = [[]], out_stream = [], right_first = True\<rparr>"
proof -
  let ?flds = "[(''self'', Some 1), (''x'', Some (0::nat))]"
  have d: "deref state1 1 = Some (ClassInstance Point ?flds)"
    by code_simp
  have g: "GetMethod Point STR_METHOD = Some str_method"
    by code_simp
  have f: "formal_params str_method \<noteq> []"
    by (simp add: str_method_def)
  have b: "bind (Execute 5 (body str_method) (Fields 1) state1)
             (\<lambda>r st'. case r of None \<Rightarrow> Undefined | Some b \<Rightarrow> Object_Print 5 b st')
           = Ok ''2''
               \<lparr>heap = [Number 2,
                        ClassInstance Point [(''self'', Some 1), (''x'', Some 0), (''seen'', Some 0)],
                        String ''2''],
                locals = [[]], out_stream = [], right_first = True\<rparr>"
    by code_simp
  have m: "map_of ?flds ''x'' = Some (Some 0)"
    by simp
  have r: "Execute 1 (VariableValue [''x'']) (Fields 1) state1 = Ok (Some 0) state1"
    by code_simp
  have u: "state1\<lparr>heap := (heap state1)[1 := ClassInstance Point (AList.update ''seen'' (Some 0) ?flds)]\<rparr>
           = \<lparr>heap = [Number 2,
                      ClassInstance Point [(''self'', Some 1), (''x'', Some 0), (''seen'', Some 0)]],
              locals = [[]], out_stream = [], right_first = True\<rparr>"
    by code_simp
  have s: "Suc 5 = 6" "Suc 1 = 2" by simp_all
  note P = Print_executes_str_on_the_fields
         [OF d g, where n = 5 and ex = "Execute 5" and x = "''x''" and v = 0 and k = 1
            and y = "''seen''" and rv = "VariableValue [''x'']" and w = "Some 0"
            and ?st1.0 = state1 and ?cls1.0 = Point and ?flds1.0 = ?flds]
  have 1: "Object_Print 6 1 state1
       = Ok ''2''
           \<lparr>heap = [Number 2,
                    ClassInstance Point [(''self'', Some 1), (''x'', Some 0), (''seen'', Some 0)],
                    String ''2''],
            locals = [[]], out_stream = [], right_first = True\<rparr>"
    using P b by (simp only: s)
  have 2: "ClassInstance_Call (Execute 5) 1 STR_METHOD [] state1
       = Throw (runtime_error ''Not implemented'') state1"
    using P f by (simp only: simp_thms)
  have 3: "Execute 2 (VariableValue [''x'']) (Fields 1) state1 = Ok (Some 0) state1"
    using P m by (simp only: s simp_thms)
  have 4: "Execute 2 (Assignment ''seen'' (VariableValue [''x''])) (Fields 1) state1
       = Ok (Some 0)
           \<lparr>heap = [Number 2,
                    ClassInstance Point [(''self'', Some 1), (''x'', Some 0), (''seen'', Some 0)]],
            locals = [[]], out_stream = [], right_first = True\<rparr>"
    using P r d u by (simp only: s simp_thms)
  from d g 1 2 3 4 show ?thesis by (simp only: simp_thms)
qed

subsection \<open>Return and the method boundary\<close>







subsection \<open>Runtime errors\<close>



















































subsection \<open>The binding of self\<close>

text \<open>
  The invariant of claim C4: the fields of every instance bind \<^verbatim>\<open>self\<close> to the instance.
\<close>

definition self_bound :: "State \<Rightarrow> bool" where
  "self_bound st \<longleftrightarrow>
     (\<forall>a cls flds. deref st a = Some (ClassInstance cls flds)
        \<longrightarrow> map_of flds ''self'' = Some (Some a))"

text \<open>
  Claim C4 as stated fails. With the variable \<open>c\<close> bound to the instance of \<open>Counter\<close> at
  address 5, whose fields bind \<^verbatim>\<open>self\<close> to 5, the assignment \<^verbatim>\<open>c.self = 1\<close> is a
  \<^verbatim>\<open>FieldAssignment\<close> like any other: afterwards \<^verbatim>\<open>self\<close> is bound to the number at address 0.
\<close>

theorem FieldAssignment_rebinds_self_counterexample:
  "deref state3 5 = Some (ClassInstance Counter [(''self'', Some 5)])
   \<and> Execute 2 (FieldAssignment [''c''] ''self'' (ValueStatement 0)) (Local 0) state3
       = Ok (Some 0) (state3\<lparr>heap := heap0[5 := ClassInstance Counter [(''self'', Some 0)]]\<rparr>)
   \<and> deref (state3\<lparr>heap := heap0[5 := ClassInstance Counter [(''self'', Some 0)]]\<rparr>) 5
       = Some (ClassInstance Counter [(''self'', Some 0)])"
  by code_simp

text \<open>
  The name \<^verbatim>\<open>self\<close> is assigned in a field store by a \<^verbatim>\<open>FieldAssignment\<close> to the field
  \<^verbatim>\<open>self\<close> and, in a statement whose closure is a field store (\<open>fs\<close>), by an \<^verbatim>\<open>Assignment\<close> to
  the variable \<^verbatim>\<open>self\<close> and by the \<^verbatim>\<open>ClassDefinition\<close> of a class named \<^verbatim>\<open>self\<close>. \<open>N\<close> gives
  the name of the class a holder refers to. \<open>no_self_write N fs s\<close>: \<open>s\<close> holds none of
  these.
\<close>

fun is_Fields :: "cref \<Rightarrow> bool" where
  "is_Fields (Fields a) = True"
| "is_Fields (Local k) = False"

fun no_self_write :: "(ObjectHolder \<Rightarrow> string option) \<Rightarrow> bool \<Rightarrow> Statement \<Rightarrow> bool" where
  "no_self_write N fs (ValueStatement a) = True"
| "no_self_write N fs (VariableValue var_names) = True"
| "no_self_write N fs (Assignment var rv) = ((fs \<longrightarrow> var \<noteq> ''self'') \<and> no_self_write N fs rv)"
| "no_self_write N fs (FieldAssignment object field_name rv) =
     (field_name \<noteq> ''self'' \<and> no_self_write N fs rv)"
| "no_self_write N fs NoneStatement = True"
| "no_self_write N fs (Print args nm) = list_all (no_self_write N fs) args"
| "no_self_write N fs (MethodCall object m args) =
     (no_self_write N fs object \<and> list_all (no_self_write N fs) args)"
| "no_self_write N fs (NewInstance instance args) = list_all (no_self_write N fs) args"
| "no_self_write N fs (Stringify argument) = no_self_write N fs argument"
| "no_self_write N fs (Add l r) = (no_self_write N fs l \<and> no_self_write N fs r)"
| "no_self_write N fs (Sub l r) = (no_self_write N fs l \<and> no_self_write N fs r)"
| "no_self_write N fs (Mult l r) = (no_self_write N fs l \<and> no_self_write N fs r)"
| "no_self_write N fs (Div l r) = (no_self_write N fs l \<and> no_self_write N fs r)"
| "no_self_write N fs (Or l r) = (no_self_write N fs l \<and> no_self_write N fs r)"
| "no_self_write N fs (And l r) = (no_self_write N fs l \<and> no_self_write N fs r)"
| "no_self_write N fs (NotStatement argument) = no_self_write N fs argument"
| "no_self_write N fs (Compound instructions) = list_all (no_self_write N fs) instructions"
| "no_self_write N fs (MethodBody body_stmt) = no_self_write N fs body_stmt"
| "no_self_write N fs (Return statement) = no_self_write N fs statement"
| "no_self_write N fs (ClassDefinition cls) = (fs \<longrightarrow> N cls \<noteq> Some ''self'')"
| "no_self_write N fs (IfElse condition if_body else_body) =
     (no_self_write N fs condition \<and> no_self_write N fs if_body
      \<and> (case else_body of None \<Rightarrow> True | Some e \<Rightarrow> no_self_write N fs e))"
| "no_self_write N fs (Comparison cmp l r) = (no_self_write N fs l \<and> no_self_write N fs r)"

text \<open>The name of the class a holder refers to, in a state.\<close>

definition class_names :: "State \<Rightarrow> ObjectHolder \<Rightarrow> string option" where
  "class_names st h = map_option GetName (TryAs_Class st h)"

text \<open>
  The methods of a class: a call executes a body with a closure of its own, and printing
  executes the body of \<^verbatim>\<open>__str__\<close> with the field store.
\<close>

definition methods_no_self_write :: "(ObjectHolder \<Rightarrow> string option) \<Rightarrow> Class \<Rightarrow> bool" where
  "methods_no_self_write N cls \<longleftrightarrow>
     (\<forall>m x. GetMethod cls m = Some x \<longrightarrow> no_self_write N False (body x))
     \<and> (\<forall>x. GetMethod cls STR_METHOD = Some x \<longrightarrow> no_self_write N True (body x))"

definition program_no_self_write :: "State \<Rightarrow> bool" where
  "program_no_self_write st \<longleftrightarrow>
     (\<forall>a cls flds. deref st a = Some (ClassInstance cls flds)
        \<longrightarrow> methods_no_self_write (class_names st) cls)"

text \<open>The invariant of the proof, for a fixed naming \<open>N\<close> of the classes.\<close>

definition good :: "(ObjectHolder \<Rightarrow> string option) \<Rightarrow> State \<Rightarrow> bool" where
  "good N st \<longleftrightarrow> self_bound st \<and> program_no_self_write st \<and> class_names st = N"

definition keeps :: "(ObjectHolder \<Rightarrow> string option) \<Rightarrow> 'a result \<Rightarrow> bool" where
  "keeps N r \<longleftrightarrow>
     (case r of Ok v st \<Rightarrow> good N st | Throw e st \<Rightarrow> good N st | _ \<Rightarrow> True)"

lemma keeps_simps [simp]:
  "keeps N (Ok v st) = good N st"
  "keeps N (Throw e st) = good N st"
  "keeps N Undefined"
  "keeps N Undetermined"
  "keeps N OutOfFuel"
  by (simp_all add: keeps_def)

lemma keeps_bind:
  "keeps N r \<Longrightarrow> (\<And>v st. good N st \<Longrightarrow> keeps N (f v st)) \<Longrightarrow> keeps N (bind r f)"
  by (cases r) simp_all

text \<open>The invariant depends on the heap only, and is kept by the updates of the heap.\<close>

lemma deref_heap_cong: "heap st' = heap st \<Longrightarrow> deref st' a = deref st a"
  by (simp add: deref_def)

lemma class_names_heap_cong: "heap st' = heap st \<Longrightarrow> class_names st' = class_names st"
  by (rule ext) (simp add: class_names_def TryAs_Class_def deref_heap_cong [of st' st]
        split: option.splits)

lemma good_heap_cong:
  "heap st' = heap st \<Longrightarrow> good N st' = good N st"
  by (simp add: good_def self_bound_def program_no_self_write_def
        class_names_heap_cong [of st' st] deref_heap_cong [of st' st])

lemma good_write_text [simp]: "good N (write_text txt st) = good N st"
  by (rule good_heap_cong) (simp add: write_text_def)

lemma good_locals [simp]: "good N (st\<lparr>locals := l\<rparr>) = good N st"
  by (rule good_heap_cong) simp

lemma deref_append:
  "deref (st\<lparr>heap := heap st @ [obj]\<rparr>) a =
     (if a < length (heap st) then deref st a
      else if a = length (heap st) then Some obj else None)"
  by (auto simp: deref_def nth_append)

lemma deref_update:
  "deref (st\<lparr>heap := (heap st)[b := obj]\<rparr>) a =
     (if a = b \<and> b < length (heap st) then Some obj else deref st a)"
  by (auto simp: deref_def)

fun is_value :: "Object \<Rightarrow> bool" where
  "is_value (Number v) = True"
| "is_value (String s) = True"
| "is_value (Bool b) = True"
| "is_value (ClassObject cls) = False"
| "is_value (ClassInstance cls flds) = False"

lemma deref_None: "\<not> a < length (heap st) \<Longrightarrow> deref st a = None"
  by (simp add: deref_def)

lemma class_names_append:
  "is_value obj \<Longrightarrow> class_names (st\<lparr>heap := heap st @ [obj]\<rparr>) = class_names st"
  by (cases obj)
     (auto simp: class_names_def TryAs_Class_def deref_append deref_None fun_eq_iff
           split: option.splits)

lemma good_append:
  assumes "good N st" "is_value obj"
  shows "good N (st\<lparr>heap := heap st @ [obj]\<rparr>)"
proof -
  let ?st = "st\<lparr>heap := heap st @ [obj]\<rparr>"
  have d: "deref st a = Some (ClassInstance cls flds)"
    if "deref ?st a = Some (ClassInstance cls flds)" for a cls flds
    using that assms(2) by (cases obj) (auto simp: deref_append split: if_splits)
  have n: "class_names ?st = class_names st"
    by (rule class_names_append [OF assms(2)])
  from assms(1) have s: "self_bound st" and p: "program_no_self_write st"
    and c: "class_names st = N"
    by (simp_all add: good_def)
  have "self_bound ?st"
    unfolding self_bound_def
  proof (intro allI impI)
    fix a cls flds assume "deref ?st a = Some (ClassInstance cls flds)"
    from d [OF this] s show "map_of flds ''self'' = Some (Some a)"
      by (simp add: self_bound_def)
  qed
  moreover have "program_no_self_write ?st"
    unfolding program_no_self_write_def n
  proof (intro allI impI)
    fix a cls flds assume "deref ?st a = Some (ClassInstance cls flds)"
    from d [OF this] p show "methods_no_self_write (class_names st) cls"
      unfolding program_no_self_write_def by blast
  qed
  ultimately show ?thesis by (simp add: good_def n c)
qed

lemma keeps_Own: "good N st \<Longrightarrow> is_value obj \<Longrightarrow> keeps N (Own obj st)"
  by (simp add: Own_def good_append)

lemma keeps_Own_Number: "good N st \<Longrightarrow> keeps N (Own_Number v st)"
  by (simp add: Own_Number_def keeps_Own)

lemma class_names_update:
  "deref st a = Some (ClassInstance cls flds) \<Longrightarrow>
   class_names (st\<lparr>heap := (heap st)[a := ClassInstance cls flds']\<rparr>) = class_names st"
  by (auto simp: class_names_def TryAs_Class_def deref_update fun_eq_iff split: option.splits)

lemma good_update_fields:
  assumes "good N st" "deref st a = Some (ClassInstance cls flds)"
      and "map_of flds' ''self'' = Some (Some a)"
  shows "good N (st\<lparr>heap := (heap st)[a := ClassInstance cls flds']\<rparr>)"
proof -
  let ?st = "st\<lparr>heap := (heap st)[a := ClassInstance cls flds']\<rparr>"
  have d: "(b = a \<and> c = cls \<and> f = flds') \<or> (b \<noteq> a \<and> deref st b = Some (ClassInstance c f))"
    if "deref ?st b = Some (ClassInstance c f)" for b c f
    using that assms(2) by (auto simp: deref_update deref_None split: if_splits)
  have n: "class_names ?st = class_names st"
    by (rule class_names_update [OF assms(2)])
  from assms(1) have s: "self_bound st" and p: "program_no_self_write st"
    and c: "class_names st = N"
    by (simp_all add: good_def)
  have "self_bound ?st"
    unfolding self_bound_def
  proof (intro allI impI)
    fix b c f assume "deref ?st b = Some (ClassInstance c f)"
    from d [OF this] show "map_of f ''self'' = Some (Some b)"
    proof
      assume "b = a \<and> c = cls \<and> f = flds'"
      with assms(3) show ?thesis by simp
    next
      assume "b \<noteq> a \<and> deref st b = Some (ClassInstance c f)"
      with s show ?thesis by (simp add: self_bound_def)
    qed
  qed
  moreover have "program_no_self_write ?st"
    unfolding program_no_self_write_def n
  proof (intro allI impI)
    fix b c f assume "deref ?st b = Some (ClassInstance c f)"
    from d [OF this] have "\<exists>f'. deref st b = Some (ClassInstance c f')"
      using assms(2) by auto
    with p show "methods_no_self_write (class_names st) c"
      unfolding program_no_self_write_def by blast
  qed
  ultimately show ?thesis by (simp add: good_def n c)
qed

lemma good_set_fields:
  assumes "good N st" "deref st a = Some (ClassInstance cls flds)" "key \<noteq> ''self''"
  shows "good N (set_closure (Fields a) (AList.update key v flds) st)"
proof -
  from assms(1,2) have "map_of flds ''self'' = Some (Some a)"
    by (auto simp: good_def self_bound_def)
  with assms(3) have "map_of (AList.update key v flds) ''self'' = Some (Some a)"
    by (simp add: update_conv')
  from good_update_fields [OF assms(1,2) this] assms(2) show ?thesis by simp
qed

lemma good_closure_store:
  assumes "good N st" "is_Fields c \<longrightarrow> key \<noteq> ''self''" "closure_store c key v st = Some st'"
  shows "good N st'"
proof (cases c)
  case (Local k)
  from assms(3) obtain cl where "st' = set_closure c (AList.update key v cl) st"
    by (auto simp: closure_store_def split: option.splits)
  with Local have "heap st' = heap st" by simp
  from good_heap_cong [OF this] assms(1) show ?thesis by simp
next
  case (Fields a)
  from assms(3) obtain cl where
    g: "get_closure st c = Some cl" and
    st': "st' = set_closure c (AList.update key v cl) st"
    by (auto simp: closure_store_def split: option.splits)
  from g Fields obtain cls where d: "deref st a = Some (ClassInstance cls cl)"
    by (auto split: option.splits Object.splits)
  from assms(2) Fields have "key \<noteq> ''self''" by simp
  from good_set_fields [OF assms(1) d this] st' Fields show ?thesis by simp
qed

text \<open>An evaluator, and a printer, that keep the invariant.\<close>

definition ex_ok :: "(ObjectHolder \<Rightarrow> string option) \<Rightarrow> executor \<Rightarrow> bool" where
  "ex_ok N ex \<longleftrightarrow>
     (\<forall>s c st. good N st \<longrightarrow> no_self_write N (is_Fields c) s \<longrightarrow> keeps N (ex s c st))"

definition pr_ok :: "(ObjectHolder \<Rightarrow> string option) \<Rightarrow> printer \<Rightarrow> bool" where
  "pr_ok N pr \<longleftrightarrow> (\<forall>a st. good N st \<longrightarrow> keeps N (pr a st))"

lemma ex_okD:
  "ex_ok N ex \<Longrightarrow> good N st \<Longrightarrow> no_self_write N (is_Fields c) s \<Longrightarrow> keeps N (ex s c st)"
  by (simp add: ex_ok_def)

lemma pr_okD: "pr_ok N pr \<Longrightarrow> good N st \<Longrightarrow> keeps N (pr a st)"
  by (simp add: pr_ok_def)

lemma good_method_body:
  assumes "good N st" "deref st a = Some (ClassInstance cls flds)" "GetMethod cls m = Some x"
  shows "no_self_write N False (body x)"
    and "m = STR_METHOD \<Longrightarrow> no_self_write N True (body x)"
proof -
  from assms(1,2) have "methods_no_self_write N cls"
    unfolding good_def program_no_self_write_def by blast
  with assms(3) show "no_self_write N False (body x)"
    and "m = STR_METHOD \<Longrightarrow> no_self_write N True (body x)"
    unfolding methods_no_self_write_def by blast+
qed

lemma keeps_Call:
  assumes "ex_ok N ex" "good N st"
  shows "keeps N (ClassInstance_Call ex a m actual_args st)"
proof (cases "deref st a")
  case None
  then show ?thesis by (simp add: ClassInstance_Call_def)
next
  case (Some obj)
  show ?thesis
  proof (cases obj)
    case (ClassInstance cls flds)
    show ?thesis
    proof (cases "GetMethod cls m")
      case None
      with Some ClassInstance assms show ?thesis by (simp add: ClassInstance_Call_def)
    next
      case (Some x)
      from good_method_body(1) [OF assms(2) _ Some] \<open>deref st a = Some obj\<close> ClassInstance
      have "no_self_write N False (body x)" by simp
      then have "keeps N (ex (body x) (Local k) (st\<lparr>locals := l\<rparr>))" for k l
        using ex_okD [OF assms(1), of "st\<lparr>locals := l\<rparr>" "Local k" "body x"] assms(2) by simp
      with Some \<open>deref st a = Some obj\<close> ClassInstance assms show ?thesis
        by (simp add: ClassInstance_Call_def Let_def)
    qed
  qed (use Some in \<open>simp_all add: ClassInstance_Call_def\<close>)
qed

lemma keeps_Call_IsTrue:
  assumes ex: "ex_ok N ex" and st: "good N st"
  shows "keeps N (bind (ClassInstance_Call ex a m actual_args st) (\<lambda>r st'. Ok (IsTrue st' r) st'))"
  by (rule keeps_bind [OF keeps_Call [OF ex st]]) simp

lemma keeps_Equal:
  assumes ex: "ex_ok N ex" and st: "good N st"
  shows "keeps N (Equal ex lhs rhs st)"
  using st
  by (simp add: Equal_def keeps_Call_IsTrue [OF ex] split: option.split prod.split)

lemma keeps_Less:
  assumes ex: "ex_ok N ex" and st: "good N st"
  shows "keeps N (Less ex lhs rhs st)"
  using st
  by (simp add: Less_def keeps_Call_IsTrue [OF ex] split: option.split prod.split)

lemma keeps_NotEqual:
  assumes ex: "ex_ok N ex" and st: "good N st"
  shows "keeps N (NotEqual ex lhs rhs st)"
  using st by (auto simp: NotEqual_def intro!: keeps_bind keeps_Equal [OF ex])

lemma keeps_Greater:
  assumes ex: "ex_ok N ex" and st: "good N st"
  shows "keeps N (Greater ex lhs rhs st)"
proof -
  have "keeps N (bind (Less ex lhs rhs st)
          (\<lambda>l st1. if l then Ok False st1
                    else bind (Equal ex lhs rhs st1) (\<lambda>e st2. Ok (\<not> e) st2)))"
    using st by (auto intro!: keeps_bind keeps_Less [OF ex] keeps_Equal [OF ex])
  then show ?thesis
    by (simp add: Greater_def keeps_def split: result.splits)
qed

lemma keeps_LessOrEqual:
  assumes ex: "ex_ok N ex" and st: "good N st"
  shows "keeps N (LessOrEqual ex lhs rhs st)"
  using st
  by (auto simp: LessOrEqual_def intro!: keeps_bind keeps_Less [OF ex] keeps_Equal [OF ex])

lemma keeps_GreaterOrEqual:
  assumes ex: "ex_ok N ex" and st: "good N st"
  shows "keeps N (GreaterOrEqual ex lhs rhs st)"
  using st by (auto simp: GreaterOrEqual_def intro!: keeps_bind keeps_Less [OF ex])

lemma keeps_Comparator_call:
  "ex_ok N ex \<Longrightarrow> good N st \<Longrightarrow> keeps N (Comparator_call cmp ex lhs rhs st)"
  by (cases cmp)
     (simp_all add: keeps_Equal keeps_Less keeps_NotEqual keeps_Greater keeps_LessOrEqual
        keeps_GreaterOrEqual)

lemma keeps_Execute_args:
  assumes ex: "ex_ok N ex"
  shows "good N st \<Longrightarrow> list_all (no_self_write N (is_Fields c)) args \<Longrightarrow>
         keeps N (Execute_args ex args c st)"
  by (induction args arbitrary: st) (auto intro!: keeps_bind ex_okD [OF ex])

lemma keeps_Compound:
  assumes ex: "ex_ok N ex"
  shows "good N st \<Longrightarrow> list_all (no_self_write N (is_Fields c)) instructions \<Longrightarrow>
         keeps N (Compound_Execute ex instructions c st)"
  by (induction instructions arbitrary: st) (auto intro!: keeps_bind ex_okD [OF ex])

lemma keeps_print_or_None:
  assumes pr: "pr_ok N pr" and st: "good N st"
  shows "keeps N (case ptr of Some a \<Rightarrow> pr a st | None \<Rightarrow> Ok ''None'' st)"
  using st by (cases ptr) (auto intro: pr_okD [OF pr])

lemma keeps_Print_loop:
  assumes ex: "ex_ok N ex" and pr: "pr_ok N pr"
  shows "good N st \<Longrightarrow> list_all (no_self_write N (is_Fields c)) args \<Longrightarrow>
         keeps N (Print_loop ex pr args c st)"
  by (induction args arbitrary: st)
     (auto intro!: keeps_bind ex_okD [OF ex] keeps_print_or_None [OF pr])

lemma keeps_VariableValue_loop: "good N st \<Longrightarrow> keeps N (VariableValue_loop st obj ns)"
  by (induction ns arbitrary: obj) (auto split: option.splits)

lemma keeps_VariableValue: "good N st \<Longrightarrow> keeps N (VariableValue_Execute var_names c st)"
  by (auto simp: VariableValue_Execute_def intro!: keeps_bind keeps_VariableValue_loop
           split: list.splits option.splits)

lemma good_field_update:
  assumes "good N st" "deref st a = Some (ClassInstance cls flds)" "key \<noteq> ''self''"
  shows "good N (st\<lparr>heap := (heap st)[a := ClassInstance cls (AList.update key v flds)]\<rparr>)"
  using good_set_fields [OF assms, of v] assms(2) by simp

lemma keeps_Execute_node:
  assumes ex: "ex_ok N ex" and pr: "pr_ok N pr" and st: "good N st"
      and s: "no_self_write N (is_Fields c) s"
  shows "keeps N (Execute_node ex pr s c st)"
proof (cases s)
  case (ValueStatement a)
  with st show ?thesis by (simp add: Execute_node_def ValueStatement_Execute_def)
next
  case (VariableValue var_names)
  with st show ?thesis by (simp add: Execute_node_def keeps_VariableValue)
next
  case (Assignment var rv)
  with s st show ?thesis
    by (auto simp: Execute_node_def Assignment_Execute_def
             intro!: keeps_bind ex_okD [OF ex] dest: good_closure_store split: option.splits)
next
  case (FieldAssignment object field_name rv)
  with s st show ?thesis
    by (auto simp: Execute_node_def FieldAssignment_Execute_def TryAs_ClassInstance_def
             intro!: keeps_bind ex_okD [OF ex] keeps_VariableValue good_field_update
             split: option.splits Object.splits)
next
  case NoneStatement
  with st show ?thesis by (simp add: Execute_node_def)
next
  case (Print args nm)
  with s st show ?thesis
    by (auto simp: Execute_node_def Print_Execute_def
             intro!: keeps_bind keeps_Print_loop [OF ex pr] pr_okD [OF pr]
             split: option.splits)
next
  case (MethodCall object m args)
  with s st show ?thesis
    by (auto simp: Execute_node_def MethodCall_Execute_def
             intro!: keeps_bind keeps_Execute_args [OF ex] ex_okD [OF ex] keeps_Call [OF ex]
             split: option.splits)
next
  case (NewInstance inst args)
  with s st show ?thesis
    by (auto simp: Execute_node_def NewInstance_Execute_def
             intro!: keeps_bind keeps_Execute_args [OF ex] keeps_Call [OF ex]
             split: option.splits Object.splits)
next
  case (Stringify argument)
  with s st show ?thesis
    by (auto simp: Execute_node_def Stringify_Execute_def
             intro!: keeps_bind ex_okD [OF ex] keeps_print_or_None [OF pr] keeps_Own
                     pr_okD [OF pr]
             split: option.splits)
next
  case (Add l r)
  with s st show ?thesis
    by (auto simp: Execute_node_def Add_Execute_def
             intro!: keeps_bind ex_okD [OF ex] keeps_Own keeps_Own_Number keeps_Call [OF ex]
             split: option.splits)
next
  case (Sub l r)
  with s st show ?thesis
    by (auto simp: Execute_node_def Sub_Execute_def
             intro!: keeps_bind ex_okD [OF ex] keeps_Own_Number split: option.splits)
next
  case (Mult l r)
  with s st show ?thesis
    by (auto simp: Execute_node_def Mult_Execute_def
             intro!: keeps_bind ex_okD [OF ex] keeps_Own_Number split: option.splits)
next
  case (Div l r)
  with s st show ?thesis
    by (auto simp: Execute_node_def Div_Execute_def
             intro!: keeps_bind ex_okD [OF ex] keeps_Own_Number split: option.splits)
next
  case (Or l r)
  with s st show ?thesis
    by (auto simp: Execute_node_def Or_Execute_def
             intro!: keeps_bind ex_okD [OF ex] keeps_Own split: option.splits)
next
  case (And l r)
  with s st show ?thesis
    by (auto simp: Execute_node_def And_Execute_def
             intro!: keeps_bind ex_okD [OF ex] keeps_Own split: option.splits)
next
  case (NotStatement argument)
  with s st show ?thesis
    by (auto simp: Execute_node_def Not_Execute_def
             intro!: keeps_bind ex_okD [OF ex] keeps_Own split: option.splits)
next
  case (Compound instructions)
  with s st show ?thesis
    by (simp add: Execute_node_def keeps_Compound [OF ex])
next
  case (MethodBody body_stmt)
  with s st have "keeps N (ex body_stmt c st)"
    by (auto intro: ex_okD [OF ex])
  with MethodBody show ?thesis
    by (auto simp: Execute_node_def MethodBody_Execute_def intro!: keeps_Own split: result.splits)
next
  case (Return statement)
  with s st show ?thesis
    by (auto simp: Execute_node_def Return_Execute_def
             intro!: keeps_bind ex_okD [OF ex] pr_okD [OF pr] split: option.splits)
next
  case (ClassDefinition cls)
  have "class_names st cls = Some (GetName cl)" if "TryAs_Class st cls = Some cl" for cl
    using that by (simp add: class_names_def)
  with st have n: "N cls = Some (GetName cl)" if "TryAs_Class st cls = Some cl" for cl
    using that by (auto simp: good_def)
  from ClassDefinition s st show ?thesis
    by (auto simp: Execute_node_def ClassDefinition_Execute_def
             dest!: n intro: good_closure_store split: option.splits)
next
  case (IfElse condition if_body else_body)
  with s st show ?thesis
    by (auto simp: Execute_node_def IfElse_Execute_def
             intro!: keeps_bind ex_okD [OF ex] split: option.splits)
next
  case (Comparison cmp l r)
  with s st have "keeps N (Comparison_in_order right_one_first ex cmp l r c st)"
    for right_one_first
    by (auto simp: Comparison_in_order_def
             intro!: keeps_bind ex_okD [OF ex] keeps_Comparator_call [OF ex] keeps_Own)
  with Comparison show ?thesis
    by (simp add: Execute_node_def Comparison_Execute_def)
qed

lemma keeps_Print_object:
  assumes ex: "ex_ok N ex" and pr: "pr_ok N pr" and st: "good N st"
  shows "keeps N (Print_object ex pr a st)"
proof (cases "deref st a")
  case None
  then show ?thesis by (simp add: Print_object_def)
next
  case (Some obj)
  show ?thesis
  proof (cases obj)
    case (ClassInstance cls flds)
    show ?thesis
    proof (cases "GetMethod cls STR_METHOD")
      case None
      with Some ClassInstance st show ?thesis by (simp add: Print_object_def)
    next
      case (Some ptr)
      from good_method_body(2) [OF st _ Some] \<open>deref st a = Some obj\<close> ClassInstance
      have "no_self_write N True (body ptr)" by simp
      then have "keeps N (ex (body ptr) (Fields a) st)"
        using ex_okD [OF ex st, of "Fields a" "body ptr"] by simp
      then have "keeps N (bind (ex (body ptr) (Fields a) st)
                   (\<lambda>r st'. case r of None \<Rightarrow> Undefined | Some b \<Rightarrow> pr b st'))"
        by (rule keeps_bind) (auto intro: pr_okD [OF pr] split: option.splits)
      with Some \<open>deref st a = Some obj\<close> ClassInstance show ?thesis
        by (simp add: Print_object_def)
    qed
  qed (use Some st in \<open>simp_all add: Print_object_def\<close>)
qed

lemma Execute_keeps: "ex_ok N (Execute n) \<and> pr_ok N (Object_Print n)"
proof (induction n)
  case 0
  show ?case by (simp add: ex_ok_def pr_ok_def)
next
  case (Suc n)
  then have ex: "ex_ok N (Execute n)" and pr: "pr_ok N (Object_Print n)" by simp_all
  show ?case
    unfolding ex_ok_def pr_ok_def
    using keeps_Execute_node [OF ex pr] keeps_Print_object [OF ex pr] by simp
qed

text \<open>
  Claim C4, amended. The constructor of \<^verbatim>\<open>ClassInstance\<close> binds \<^verbatim>\<open>self\<close> to the new instance
  and keeps the invariant. Every execution of a statement, whether it returns or throws,
  keeps the invariant for all instances, provided that nothing the program executes assigns
  the name \<^verbatim>\<open>self\<close> in a field store: neither the statement nor a method body of the class
  of an instance holds a \<^verbatim>\<open>FieldAssignment\<close> to the field \<^verbatim>\<open>self\<close>, and the statements whose
  closure is a field store (the bodies of \<^verbatim>\<open>__str__\<close>, and the statement itself when \<open>c\<close> is a
  field store) hold no \<^verbatim>\<open>Assignment\<close> to the variable \<^verbatim>\<open>self\<close> and no definition of a class
  named \<^verbatim>\<open>self\<close>. These conditions hold again in the state reached.
\<close>

theorem self_stays_bound:
  "(new_ClassInstance cls st = (a, st') \<longrightarrow>
      deref st' a = Some (ClassInstance cls [(''self'', Some a)])
      \<and> (self_bound st \<longrightarrow> self_bound st'))
   \<and> (self_bound st \<and> program_no_self_write st
      \<and> no_self_write (class_names st) (is_Fields c) s
      \<and> (Execute n s c st = Ok v st'' \<or> Execute n s c st = Throw e st'')
    \<longrightarrow> self_bound st'' \<and> program_no_self_write st'' \<and> class_names st'' = class_names st)"
proof -
  have construct: "deref st' a = Some (ClassInstance cls [(''self'', Some a)])
                   \<and> (self_bound st \<longrightarrow> self_bound st')"
    if n: "new_ClassInstance cls st = (a, st')"
  proof -
    from n have a: "a = length (heap st)"
      and st': "st' = st\<lparr>heap := heap st @ [ClassInstance cls [(''self'', Some a)]]\<rparr>"
      by (auto simp: new_ClassInstance_def)
    have 1: "deref st' a = Some (ClassInstance cls [(''self'', Some a)])"
      by (simp add: st' deref_append a)
    have 2: "self_bound st'" if sb: "self_bound st"
      unfolding self_bound_def
    proof (intro allI impI)
      fix b c f assume "deref st' b = Some (ClassInstance c f)"
      then have "(b = a \<and> f = [(''self'', Some a)]) \<or> deref st b = Some (ClassInstance c f)"
        by (auto simp: st' deref_append a split: if_splits)
      with sb show "map_of f ''self'' = Some (Some b)"
        by (auto simp: self_bound_def)
    qed
    from 1 2 show ?thesis by simp
  qed
  have keep: "self_bound st'' \<and> program_no_self_write st'' \<and> class_names st'' = class_names st"
    if h: "self_bound st \<and> program_no_self_write st
      \<and> no_self_write (class_names st) (is_Fields c) s
      \<and> (Execute n s c st = Ok v st'' \<or> Execute n s c st = Throw e st'')"
  proof -
    from h have g: "good (class_names st) st" by (simp add: good_def)
    from Execute_keeps [of "class_names st" n] have "ex_ok (class_names st) (Execute n)" by simp
    from ex_okD [OF this g, of c s] h have "good (class_names st) st''" by auto
    then show ?thesis by (simp add: good_def)
  qed
  from construct keep show ?thesis by blast
qed

text \<open>
  For a state given by a list, the two conditions on the state are checked object by object.
\<close>

lemma all_deref_iff:
  "(\<forall>a obj. deref st a = Some obj \<longrightarrow> P a obj)
     \<longleftrightarrow> list_all (\<lambda>(a, obj). P a obj) (enumerate 0 (heap st))"
  by (auto simp: list_all_iff in_set_enumerate_eq deref_def)

lemma self_bound_list:
  "self_bound st \<longleftrightarrow>
     list_all (\<lambda>(a, obj). case obj of ClassInstance cls flds \<Rightarrow> map_of flds ''self'' = Some (Some a)
                                    | _ \<Rightarrow> True)
       (enumerate 0 (heap st))"
proof -
  have "self_bound st \<longleftrightarrow>
          (\<forall>a obj. deref st a = Some obj \<longrightarrow>
             (case obj of ClassInstance cls flds \<Rightarrow> map_of flds ''self'' = Some (Some a) | _ \<Rightarrow> True))"
    by (auto simp: self_bound_def split: Object.splits)
  then show ?thesis by (simp only: all_deref_iff)
qed

lemma program_no_self_write_list:
  "program_no_self_write st \<longleftrightarrow>
     list_all (\<lambda>(a, obj). case obj of ClassInstance cls flds \<Rightarrow>
                                      methods_no_self_write (class_names st) cls
                                    | _ \<Rightarrow> True)
       (enumerate 0 (heap st))"
proof -
  have "program_no_self_write st \<longleftrightarrow>
          (\<forall>a obj. deref st a = Some obj \<longrightarrow>
             (case obj of ClassInstance cls flds \<Rightarrow> methods_no_self_write (class_names st) cls
              | _ \<Rightarrow> True))"
    by (auto simp: program_no_self_write_def split: Object.splits)
  then show ?thesis by (simp only: all_deref_iff)
qed

text \<open>
  In \<open>state1\<close>, with the fields of the instance of \<open>Point\<close> as the closure: \<^verbatim>\<open>self.y = 2\<close>,
  then \<^verbatim>\<open>print self\<close>, which runs \<^verbatim>\<open>__str__\<close> on the fields and assigns the variable
  \<open>seen\<close> there. The instance has the fields \<open>y\<close> and \<open>seen\<close> afterwards, and \<^verbatim>\<open>self\<close> is
  bound to it as before.
\<close>

theorem self_stays_bound_witness:
  "self_bound state1 \<and> program_no_self_write state1
   \<and> Execute 8 (Compound [FieldAssignment [''self''] ''y'' (ValueStatement 0),
                          Print [VariableValue [''self'']] []]) (Fields 1) state1
     = Ok None
         \<lparr>heap = [Number 2,
                  ClassInstance Point
                    [(''self'', Some 1), (''x'', Some 0), (''y'', Some 0), (''seen'', Some 0)],
                  String ''2''],
          locals = [[]], out_stream = ''2'' @ [newline], right_first = True\<rparr>
   \<and> self_bound
         \<lparr>heap = [Number 2,
                  ClassInstance Point
                    [(''self'', Some 1), (''x'', Some 0), (''y'', Some 0), (''seen'', Some 0)],
                  String ''2''],
          locals = [[]], out_stream = ''2'' @ [newline], right_first = True\<rparr>
   \<and> new_ClassInstance Point state1
     = (2, state1\<lparr>heap := heap state1 @ [ClassInstance Point [(''self'', Some 2)]]\<rparr>)
   \<and> self_bound (state1\<lparr>heap := heap state1 @ [ClassInstance Point [(''self'', Some 2)]]\<rparr>)"
proof -
  let ?s = "Compound [FieldAssignment [''self''] ''y'' (ValueStatement 0),
                      Print [VariableValue [''self'']] []]"
  let ?st = "\<lparr>heap = [Number 2,
                  ClassInstance Point
                    [(''self'', Some 1), (''x'', Some 0), (''y'', Some 0), (''seen'', Some 0)],
                  String ''2''],
          locals = [[]], out_stream = ''2'' @ [newline], right_first = True\<rparr>"
  let ?new = "state1\<lparr>heap := heap state1 @ [ClassInstance Point [(''self'', Some 2)]]\<rparr>"
  have sb: "self_bound state1"
    unfolding self_bound_list by (simp add: state1_def enumerate_eq_zip upt_rec)
  have m: "methods_no_self_write N Point" for N
    by (auto simp: methods_no_self_write_def Point_def str_method_def split: if_splits)
  have ps: "program_no_self_write state1"
    unfolding program_no_self_write_list by (simp add: state1_def enumerate_eq_zip upt_rec m)
  have ns: "no_self_write (class_names state1) (is_Fields (Fields 1)) ?s"
    by simp
  have e: "Execute 8 ?s (Fields 1) state1 = Ok None ?st"
    by code_simp
  have c: "new_ClassInstance Point state1 = (2, ?new)"
    by code_simp
  note P = self_stays_bound [where st = state1 and c = "Fields 1" and s = ?s and n = 8
             and v = None and st'' = ?st and cls = Point and a = 2 and st' = ?new]
  from P sb ps ns e have 1: "self_bound ?st" by blast
  from P sb c have 2: "self_bound ?new" by blast
  from sb ps e 1 c 2 show ?thesis by (simp only: simp_thms)
qed

end
